theory Spec2Isabelle
  imports Complex_Main "HOL-Library.AList"
begin

section \<open>The download script of spoti\_data: \<^verbatim>\<open>scripts/download_features.py\<close>\<close>

text \<open>
  The script reads a streaming history, resolves every played track to a catalogue id
  through the search endpoint, downloads the metadata and the audio features of every
  resolved track and writes three tables. It is sequential: every function is modelled by
  a function that takes the state of the outside world it touches (the requests sent so
  far, the lines printed, the files written) and returns its result, or the exception it
  raises, together with the new state.
\<close>

subsection \<open>Values, exceptions and the outside world\<close>

text \<open>
  The exceptions that can leave a function of the script. \<open>Timeout\<close> is
  \<^verbatim>\<open>requests.exceptions.Timeout\<close>, \<open>HTTPError\<close> what
  \<^verbatim>\<open>raise_for_status\<close> raises, \<open>DecodeError\<close> stands for the failures of
  \<^verbatim>\<open>response.json()\<close> and of indexing a body of the wrong shape.
\<close>

datatype exn =
    Timeout
  | ConnectionError
  | HTTPError nat
  | DecodeError
  | IndexError
  | KeyError string
  | AttributeError string
  | TypeError
  | ValueError
  | OutOfBoundsDatetime

text \<open>A cell of a table and a value of a dictionary (\<^verbatim>\<open>Union[str, int, float]\<close>, \<^verbatim>\<open>None\<close>,
  and the \<open>NaN\<close> that pandas puts where a dictionary has no entry for a column).\<close>

datatype pyval =
    PNone
  | NaN
  | PBool bool
  | PInt int
  | PFloat real
  | PStr string

type_synonym dict = "(string \<times> pyval) list"

record artist =
  artist_id :: string
  artist_name :: string
  artist_type :: string

record album =
  album_type :: string
  album_id :: string
  album_name :: string
  album_release_date :: string

text \<open>The fields of a track object that \<^verbatim>\<open>get_track_data\<close> reads.\<close>

record track_object =
  track_album :: album
  track_artists :: "artist list"
  track_duration_ms :: int
  track_is_local :: bool
  track_name :: string
  track_popularity :: int
  track_type :: string

text \<open>
  The JSON body of a response, by endpoint: the ids of
  \<^verbatim>\<open>json['tracks']['items']\<close> in order, a track object, an audio-feature object, the JSON
  value \<^verbatim>\<open>null\<close>, or anything else.
\<close>

datatype payload =
    SearchResults "string list"
  | TrackObject track_object
  | AudioFeatures dict
  | JsonNull
  | Unparsable

record response =
  status_code :: nat
  payload :: payload

record request =
  url :: string
  headers :: "(string \<times> string) list"
  params :: "(string \<times> string) list"
  timeout :: "nat option"

text \<open>
  The upstream service: what \<^verbatim>\<open>requests.get\<close> does with a request, raise an exception or
  return a response. It is a function of the request alone; a run sends no request twice
  (\<open>main_sent_distinct\<close> below), so nothing is lost by that.
\<close>

type_synonym upstream = "request \<Rightarrow> exn + response"

record streaming_record =
  artistName :: string
  trackName :: string
  endTime :: string

text \<open>A row of the history frame \<^verbatim>\<open>df\<close> once its columns are complete; \<open>row_endTime\<close> is the
  64-bit count of nanoseconds since 1970 that pandas stores for a timestamp.\<close>

record history_row =
  row_artistName :: string
  row_trackName :: string
  row_endTime :: int
  row_artist_track :: string
  row_id :: "string option"

record dataframe =
  columns :: "string list"
  rows :: "pyval list list"

datatype csv =
    Frame dataframe
  | History "history_row list"

record io =
  sent :: "request list"
  printed :: "string list"
  files :: "string \<rightharpoonup> csv"

subsection \<open>Library operations the script relies on\<close>

text \<open>\<^verbatim>\<open>requests.get\<close>: the request is sent (and recorded), the upstream answers.\<close>

definition requests_get :: "upstream \<Rightarrow> request \<Rightarrow> io \<Rightarrow> (exn + response) \<times> io" where
  "requests_get w rq s = (w rq, s\<lparr>sent := sent s @ [rq]\<rparr>)"

text \<open>\<^verbatim>\<open>Response.raise_for_status\<close> raises for the statuses 400 to 599.\<close>

definition raise_for_status :: "response \<Rightarrow> exn + unit" where
  "raise_for_status r =
     (if 400 \<le> status_code r \<and> status_code r < 600 then Inl (HTTPError (status_code r))
      else Inr ())"

definition print :: "string \<Rightarrow> io \<Rightarrow> io" where
  "print line s = s\<lparr>printed := printed s @ [line]\<rparr>"

definition to_csv :: "csv \<Rightarrow> string \<Rightarrow> io \<Rightarrow> io" where
  "to_csv t path s = s\<lparr>files := (files s)(path \<mapsto> t)\<rparr>"

text \<open>\<^verbatim>\<open>Series.unique\<close>: the distinct values in the order of their first appearance.\<close>

fun unique_from :: "'a list \<Rightarrow> 'a list \<Rightarrow> 'a list" where
  "unique_from seen [] = []"
| "unique_from seen (x # xs) =
     (if x \<in> set seen then unique_from seen xs else x # unique_from (x # seen) xs)"

definition unique :: "'a list \<Rightarrow> 'a list" where
  "unique xs = unique_from [] xs"

text \<open>Applying a function that may raise to every element in turn; the first exception ends it.\<close>

fun traverse :: "('a \<Rightarrow> exn + 'b) \<Rightarrow> 'a list \<Rightarrow> exn + 'b list" where
  "traverse f [] = Inr []"
| "traverse f (x # xs) =
     (case f x of
        Inl e \<Rightarrow> Inl e
      | Inr y \<Rightarrow> (case traverse f xs of Inl e \<Rightarrow> Inl e | Inr ys \<Rightarrow> Inr (y # ys)))"

text \<open>
  \<^verbatim>\<open>pd.DataFrame\<close> of a list of dictionaries. The columns are the keys in the order of their
  first appearance, a missing entry is \<open>NaN\<close>. Each column is then given one type: a column
  that holds a string or a boolean stays as it is; a column of numbers and missing
  values becomes a column of 64-bit floats as soon as it holds a float, a \<open>NaN\<close>, or a
  \<^verbatim>\<open>None\<close> beside an integer, the integers being rounded to the nearest float (ties to even)
  and \<^verbatim>\<open>None\<close> becoming \<open>NaN\<close>. Integers that do not fit 64 bits keep the column as it is.
\<close>

definition cell :: "dict \<Rightarrow> string \<Rightarrow> pyval" where
  "cell d c = (case map_of d c of None \<Rightarrow> NaN | Some v \<Rightarrow> v)"

primrec rounding_unit :: "nat \<Rightarrow> int \<Rightarrow> int \<Rightarrow> int" where
  "rounding_unit 0 p a = p"
| "rounding_unit (Suc k) p a = (if a div p < 2 ^ 53 then p else rounding_unit k (2 * p) a)"

definition float64_of_int :: "int \<Rightarrow> real" where
  "float64_of_int n =
     (let a = \<bar>n\<bar>;
          p = rounding_unit 11 1 a;
          q = a div p;
          r = a mod p;
          q' = (if p < 2 * r then q + 1 else if 2 * r = p \<and> odd q then q + 1 else q)
      in of_int (sgn n * (q' * p)))"

fun to_float64 :: "pyval \<Rightarrow> pyval" where
  "to_float64 (PInt n) = PFloat (float64_of_int n)"
| "to_float64 PNone = NaN"
| "to_float64 v = v"

fun number_or_missing :: "pyval \<Rightarrow> bool" where
  "number_or_missing (PStr _) = False"
| "number_or_missing (PBool _) = False"
| "number_or_missing _ = True"

fun is_float :: "pyval \<Rightarrow> bool" where
  "is_float (PFloat _) = True"
| "is_float _ = False"

fun is_int :: "pyval \<Rightarrow> bool" where
  "is_int (PInt _) = True"
| "is_int _ = False"

fun fits_64_bits :: "pyval \<Rightarrow> bool" where
  "fits_64_bits (PInt n) = (- (2 ^ 63) \<le> n \<and> n < 2 ^ 64)"
| "fits_64_bits _ = True"

fun is_negative_int :: "pyval \<Rightarrow> bool" where
  "is_negative_int (PInt n) = (n < 0)"
| "is_negative_int _ = False"

fun is_unsigned_only :: "pyval \<Rightarrow> bool" where
  "is_unsigned_only (PInt n) = (2 ^ 63 \<le> n)"
| "is_unsigned_only _ = False"

definition becomes_float64 :: "pyval list \<Rightarrow> bool" where
  "becomes_float64 vs =
     (if list_all number_or_missing vs \<and> list_all fits_64_bits vs then
        (if list_ex is_negative_int vs \<and> list_ex is_unsigned_only vs then False
         else if NaN \<in> set vs then True
         else if list_ex is_float vs then True
         else PNone \<in> set vs \<and> list_ex is_int vs)
      else False)"

definition convert_column :: "pyval list \<Rightarrow> pyval list" where
  "convert_column vs = (if becomes_float64 vs then map to_float64 vs else vs)"

text \<open>The column of key \<open>c\<close> as the frame of the dictionaries \<open>ds\<close> stores it.\<close>

definition converted :: "dict list \<Rightarrow> string \<Rightarrow> pyval list" where
  "converted ds c = convert_column (map (\<lambda>d. cell d c) ds)"

definition DataFrame :: "dict list \<Rightarrow> dataframe" where
  "DataFrame ds =
     (let cols = unique (concat (map (map fst) ds))
      in \<lparr>columns = cols,
          rows = map (\<lambda>i. map (\<lambda>c. converted ds c ! i) cols) [0..<length ds]\<rparr>)"

text \<open>\<^verbatim>\<open>df.name\<close>: the column of that name, \<^verbatim>\<open>AttributeError\<close> when the frame has none.\<close>

definition column :: "dataframe \<Rightarrow> string \<Rightarrow> pyval list" where
  "column df c = map (\<lambda>r. cell (zip (columns df) r) c) (rows df)"

definition getattr :: "dataframe \<Rightarrow> string \<Rightarrow> exn + pyval list" where
  "getattr df c = (if c \<in> set (columns df) then Inr (column df c) else Inl (AttributeError c))"

text \<open>\<^verbatim>\<open>df[names]\<close>: the frame of these columns in this order, \<^verbatim>\<open>KeyError\<close> when one is missing.\<close>

definition getitem :: "dataframe \<Rightarrow> string list \<Rightarrow> exn + dataframe" where
  "getitem df names =
     (case filter (\<lambda>c. c \<notin> set (columns df)) names of
        [] \<Rightarrow> Inr \<lparr>columns = names,
                  rows = map (\<lambda>r. map (cell (zip (columns df) r)) names) (rows df)\<rparr>
      | c # _ \<Rightarrow> Inl (KeyError c))"

text \<open>\<^verbatim>\<open>id_map[q]\<close>.\<close>

definition subscript :: "(string \<times> 'v) list \<Rightarrow> string \<Rightarrow> exn + 'v" where
  "subscript d k = (case map_of d k of None \<Rightarrow> Inl (KeyError k) | Some v \<Rightarrow> Inr v)"

subsection \<open>The functions of the script\<close>

definition get_headers :: "string \<Rightarrow> (string \<times> string) list" where
  "get_headers token =
     [(''Accept'', ''application/json''),
      (''Content-Type'', ''application/json''),
      (''Authorization'', ''Bearer '' @ token)]"

definition search_request :: "string \<Rightarrow> string \<Rightarrow> request" where
  "search_request q token =
     \<lparr>url = ''https://api.spotify.com/v1/search'',
      headers = get_headers token,
      params = [(''q'', q), (''type'', ''track'')],
      timeout = Some 5\<rparr>"

text \<open>\<^verbatim>\<open>get_id\<close>. Only \<^verbatim>\<open>requests.exceptions.Timeout\<close> is caught.\<close>

definition get_id :: "upstream \<Rightarrow> string \<Rightarrow> string \<Rightarrow> io \<Rightarrow> (exn + string option) \<times> io" where
  "get_id w q token s =
     (case requests_get w (search_request q token) s of
        (Inl e, s1) \<Rightarrow> if e = Timeout then (Inr None, s1) else (Inl e, s1)
      | (Inr response, s1) \<Rightarrow>
          (case raise_for_status response of
             Inl e \<Rightarrow> if e = Timeout then (Inr None, s1) else (Inl e, s1)
           | Inr _ \<Rightarrow>
               (case payload response of
                  SearchResults items \<Rightarrow>
                    if length items = 0 then (Inr None, print q s1)
                    else (Inr (Some (items ! 0)), s1)
                | _ \<Rightarrow> (Inl DecodeError, s1))))"

definition track_request :: "string \<Rightarrow> string \<Rightarrow> request" where
  "track_request track_id token =
     \<lparr>url = ''https://api.spotify.com/v1/tracks/'' @ track_id,
      headers = get_headers token,
      params = [],
      timeout = None\<rparr>"

definition selected_data :: "track_object \<Rightarrow> dict" where
  "selected_data track_data =
     [(''album_type'', PStr (album_type (track_album track_data))),
      (''album_id'', PStr (album_id (track_album track_data))),
      (''album_name'', PStr (album_name (track_album track_data))),
      (''album_release_date'', PStr (album_release_date (track_album track_data))),
      (''artist1_id'', PStr (artist_id (track_artists track_data ! 0))),
      (''artist1_name'', PStr (artist_name (track_artists track_data ! 0))),
      (''artist1_type'', PStr (artist_type (track_artists track_data ! 0))),
      (''artist2_id'',
         if length (track_artists track_data) < 2 then PNone
         else PStr (artist_id (track_artists track_data ! 1))),
      (''artist2_name'',
         if length (track_artists track_data) < 2 then PNone
         else PStr (artist_name (track_artists track_data ! 1))),
      (''artist2_type'',
         if length (track_artists track_data) < 2 then PNone
         else PStr (artist_type (track_artists track_data ! 1))),
      (''duration_ms'', PInt (track_duration_ms track_data)),
      (''is_local'', PBool (track_is_local track_data)),
      (''name'', PStr (track_name track_data)),
      (''popularity'', PInt (track_popularity track_data)),
      (''type'', PStr (track_type track_data))]"

text \<open>\<^verbatim>\<open>get_track_data\<close>. \<^verbatim>\<open>track_data['artists'][0]\<close> raises \<^verbatim>\<open>IndexError\<close> on an empty
  artist list, before the dictionary exists.\<close>

definition get_track_data :: "upstream \<Rightarrow> string \<Rightarrow> string \<Rightarrow> io \<Rightarrow> (exn + dict) \<times> io" where
  "get_track_data w track_id token s =
     (case requests_get w (track_request track_id token) s of
        (Inl e, s1) \<Rightarrow> (Inl e, s1)
      | (Inr response, s1) \<Rightarrow>
          (case raise_for_status response of
             Inl e \<Rightarrow> (Inl e, s1)
           | Inr _ \<Rightarrow>
               (case payload response of
                  TrackObject track_data \<Rightarrow>
                    if track_artists track_data = [] then (Inl IndexError, s1)
                    else (Inr (selected_data track_data), s1)
                | _ \<Rightarrow> (Inl DecodeError, s1))))"

definition features_request :: "string \<Rightarrow> string \<Rightarrow> request" where
  "features_request track_id token =
     \<lparr>url = ''https://api.spotify.com/v1/audio-features/'' @ track_id,
      headers = get_headers token,
      params = [],
      timeout = Some 5\<rparr>"

text \<open>\<^verbatim>\<open>get_track_audio_features\<close>. There is no \<^verbatim>\<open>try\<close> around the request. A body that is
  \<^verbatim>\<open>null\<close> is returned as it is parsed, which is \<^verbatim>\<open>None\<close>.\<close>

definition get_track_audio_features ::
    "upstream \<Rightarrow> string \<Rightarrow> string \<Rightarrow> io \<Rightarrow> (exn + dict option) \<times> io" where
  "get_track_audio_features w track_id token s =
     (case requests_get w (features_request track_id token) s of
        (Inl e, s1) \<Rightarrow> (Inl e, s1)
      | (Inr response, s1) \<Rightarrow>
          if status_code response = 503 then (Inr None, s1)
          else
            (case raise_for_status response of
               Inl e \<Rightarrow> (Inl e, s1)
             | Inr _ \<Rightarrow>
                 (case payload response of
                    AudioFeatures features \<Rightarrow> (Inr (Some features), s1)
                  | JsonNull \<Rightarrow> (Inr None, s1)
                  | _ \<Rightarrow> (Inl DecodeError, s1))))"

subsection \<open>The orchestrator \<^verbatim>\<open>main\<close>\<close>

text \<open>
  Lines 118 to 121. A frame made of an empty list has no column, so \<^verbatim>\<open>df.endTime\<close> raises
  \<^verbatim>\<open>AttributeError\<close>. \<open>Timestamp\<close> is \<^verbatim>\<open>pd.Timestamp\<close>, the parser of the time strings, taken
  as a parameter. The offset of three hours is added to the whole column of 64-bit
  nanosecond counts at once, with no check: a sum beyond the largest count wraps around,
  and \<open>NaT\<close>, the smallest 64-bit value, stays \<open>NaT\<close>.
\<close>

definition hours3 :: int where
  "hours3 = 3 * 3600 * 1000000000"

definition NaT :: int where
  "NaT = - (2 ^ 63)"

definition wrap_int64 :: "int \<Rightarrow> int" where
  "wrap_int64 x = (x + 2 ^ 63) mod 2 ^ 64 - 2 ^ 63"

definition add_offset :: "int \<Rightarrow> int" where
  "add_offset t = (if t = NaT then NaT else wrap_int64 (t + hours3))"

definition shifted_endTime :: "(string \<Rightarrow> exn + int) \<Rightarrow> streaming_record list \<Rightarrow> exn + int list" where
  "shifted_endTime Timestamp streaming_history =
     (if streaming_history = [] then Inl (AttributeError ''endTime'')
      else
        (case traverse Timestamp (map endTime streaming_history) of
           Inl e \<Rightarrow> Inl e
         | Inr ts \<Rightarrow> Inr (map add_offset ts)))"

text \<open>Line 146, the dictionary comprehension over the unique queries.\<close>

fun id_map_of :: "upstream \<Rightarrow> string list \<Rightarrow> string \<Rightarrow> io \<Rightarrow> (exn + (string \<times> string option) list) \<times> io" where
  "id_map_of w [] token s = (Inr [], s)"
| "id_map_of w (artist_track # rest) token s =
     (case get_id w artist_track token s of
        (Inl e, s1) \<Rightarrow> (Inl e, s1)
      | (Inr r, s1) \<Rightarrow>
          (case id_map_of w rest token s1 of
             (Inl e, s2) \<Rightarrow> (Inl e, s2)
           | (Inr m, s2) \<Rightarrow> (Inr ((artist_track, r) # m), s2)))"

text \<open>Lines 151 to 157, the loop over the unique ids of the history.\<close>

fun tracks_data_of :: "upstream \<Rightarrow> string option list \<Rightarrow> string \<Rightarrow> io \<Rightarrow> (exn + dict list) \<times> io" where
  "tracks_data_of w [] token s = (Inr [], s)"
| "tracks_data_of w (None # rest) token s = tracks_data_of w rest token s"
| "tracks_data_of w (Some tid # rest) token s =
     (case get_track_data w tid token s of
        (Inl e, s1) \<Rightarrow> (Inl e, s1)
      | (Inr data, s1) \<Rightarrow>
          (case tracks_data_of w rest token s1 of
             (Inl e, s2) \<Rightarrow> (Inl e, s2)
           | (Inr ds, s2) \<Rightarrow> (Inr (AList.update ''id_'' (PStr tid) data # ds), s2)))"

text \<open>Lines 162 to 170, the loop over the unique values of the column \<^verbatim>\<open>id_\<close> of the metadata
  frame. Line 156 puts only strings there; the model raises \<^verbatim>\<open>TypeError\<close> for a cell
  of another kind, which the proofs show not to happen.\<close>

fun tracks_features_data_of :: "upstream \<Rightarrow> pyval list \<Rightarrow> string \<Rightarrow> io \<Rightarrow> (exn + dict list) \<times> io" where
  "tracks_features_data_of w [] token s = (Inr [], s)"
| "tracks_features_data_of w (PNone # rest) token s = tracks_features_data_of w rest token s"
| "tracks_features_data_of w (PStr tid # rest) token s =
     (case get_track_audio_features w tid token s of
        (Inl e, s1) \<Rightarrow> (Inl e, s1)
      | (Inr None, s1) \<Rightarrow> tracks_features_data_of w rest token s1
      | (Inr (Some data), s1) \<Rightarrow>
          (case tracks_features_data_of w rest token s1 of
             (Inl e, s2) \<Rightarrow> (Inl e, s2)
           | (Inr ds, s2) \<Rightarrow> (Inr (AList.update ''id_'' (PStr tid) data # ds), s2)))"
| "tracks_features_data_of w (_ # rest) token s = (Inl TypeError, s)"

definition keep_features :: "string list" where
  "keep_features =
     [''id_'', ''danceability'', ''energy'', ''key'', ''loudness'', ''mode'', ''speechiness'',
      ''acousticness'', ''instrumentalness'', ''liveness'', ''valence'', ''tempo'',
      ''time_signature'']"

definition query_of :: "streaming_record \<Rightarrow> string" where
  "query_of row = artistName row @ '' '' @ trackName row"

definition history_frame :: "streaming_record list \<Rightarrow> int list \<Rightarrow> string option list \<Rightarrow> history_row list" where
  "history_frame streaming_history ts ids =
     map (\<lambda>(row, t, i).
            \<lparr>row_artistName = artistName row, row_trackName = trackName row, row_endTime = t,
             row_artist_track = query_of row, row_id = i\<rparr>)
         (zip streaming_history (zip ts ids))"

text \<open>
  Lines 118 to 149 of \<^verbatim>\<open>main\<close>: the history frame with its columns \<^verbatim>\<open>artist+track\<close> and
  \<^verbatim>\<open>id_\<close>. The history is already read from its file and the token already obtained
  (lines 123 to 141 are the OAuth collaborator).
\<close>

definition annotated_history ::
    "upstream \<Rightarrow> (string \<Rightarrow> exn + int) \<Rightarrow> streaming_record list \<Rightarrow> string \<Rightarrow> io
       \<Rightarrow> (exn + history_row list) \<times> io" where
  "annotated_history w Timestamp streaming_history token s0 =
     (case shifted_endTime Timestamp streaming_history of
        Inl e \<Rightarrow> (Inl e, s0)
      | Inr ts \<Rightarrow>
          (let artist_track = map query_of streaming_history;
               unique_tracks = unique artist_track
           in case id_map_of w unique_tracks token s0 of
                (Inl e, s1) \<Rightarrow> (Inl e, s1)
              | (Inr id_map, s1) \<Rightarrow>
                  (case traverse (subscript id_map) artist_track of
                     Inl e \<Rightarrow> (Inl e, s1)
                   | Inr ids \<Rightarrow> (Inr (history_frame streaming_history ts ids), s1))))"

text \<open>\<^verbatim>\<open>main\<close>, lines 151 to 181.\<close>

definition main ::
    "upstream \<Rightarrow> (string \<Rightarrow> exn + int) \<Rightarrow> streaming_record list \<Rightarrow> string \<Rightarrow> io \<Rightarrow> (exn + unit) \<times> io" where
  "main w Timestamp streaming_history token s0 =
     (case annotated_history w Timestamp streaming_history token s0 of
        (Inl e, s1) \<Rightarrow> (Inl e, s1)
      | (Inr df, s1) \<Rightarrow>
     (case tracks_data_of w (unique (map row_id df)) token s1 of
        (Inl e, s2) \<Rightarrow> (Inl e, s2)
      | (Inr tracks_data, s2) \<Rightarrow>
     (let tracks_df = DataFrame tracks_data;
          s3 = to_csv (Frame tracks_df) ''data/tracks.csv'' s2
      in case getattr tracks_df ''id_'' of
        Inl e \<Rightarrow> (Inl e, s3)
      | Inr id_column \<Rightarrow>
     (case tracks_features_data_of w (unique id_column) token s3 of
        (Inl e, s4) \<Rightarrow> (Inl e, s4)
      | (Inr tracks_features_data, s4) \<Rightarrow>
     (case getitem (DataFrame tracks_features_data) keep_features of
        Inl e \<Rightarrow> (Inl e, s4)
      | Inr features_df \<Rightarrow>
          (let s5 = to_csv (Frame features_df) ''data/features.csv'' s4;
               s6 = to_csv (History df) ''data/streaming_history.csv'' s5
           in (Inr (), s6)))))))"

subsection \<open>Notions used in the statements\<close>

text \<open>The values of a list that are not \<^verbatim>\<open>None\<close>, in order.\<close>

fun present :: "'a option list \<Rightarrow> 'a list" where
  "present [] = []"
| "present (None # xs) = present xs"
| "present (Some x # xs) = x # present xs"

text \<open>The dictionaries that one pass of the loop of lines 162 to 170 appends for a track id:
  the feature object with its \<^verbatim>\<open>id_\<close>, or nothing.\<close>

definition features_of :: "upstream \<Rightarrow> string \<Rightarrow> string \<Rightarrow> dict list" where
  "features_of w token t =
     (case w (features_request t token) of
        Inl e \<Rightarrow> []
      | Inr r \<Rightarrow>
          if status_code r = 503 then []
          else
            (case raise_for_status r of
               Inl e \<Rightarrow> []
             | Inr _ \<Rightarrow>
                 (case payload r of
                    AudioFeatures f \<Rightarrow> [AList.update ''id_'' (PStr t) f]
                  | _ \<Rightarrow> [])))"

text \<open>What a row of the history frame is to the record it comes from.\<close>

definition annotates :: "upstream \<Rightarrow> (string \<Rightarrow> exn + int) \<Rightarrow> string \<Rightarrow> streaming_record \<Rightarrow> history_row \<Rightarrow> bool" where
  "annotates w Timestamp token r row \<longleftrightarrow>
     row_artistName row = artistName r \<and> row_trackName row = trackName r \<and>
     row_artist_track row = artistName r @ '' '' @ trackName r \<and>
     (\<exists>t. Timestamp (endTime r) = Inr t \<and> row_endTime row = add_offset t) \<and>
     (\<forall>s0. fst (get_id w (row_artist_track row) token s0) = Inr (row_id row))"

text \<open>The distinct track ids of the history frame, in the order of their first appearance.\<close>

definition resolved_ids :: "history_row list \<Rightarrow> string list" where
  "resolved_ids df = present (unique (map row_id df))"

text \<open>The feature dictionaries collected for a list of track ids.\<close>

definition collected :: "upstream \<Rightarrow> string \<Rightarrow> string list \<Rightarrow> dict list" where
  "collected w token tids = concat (map (features_of w token) tids)"

subsection \<open>A mock upstream and a small history\<close>

text \<open>
  Two queries resolve (to \<^verbatim>\<open>abc123\<close> and \<^verbatim>\<open>def456\<close>), every other query finds nothing; the
  answers of the audio-feature endpoint for the two ids are parameters.
\<close>

definition fresh :: io where
  "fresh = \<lparr>sent = [], printed = [], files = Map.empty\<rparr>"

definition example_track :: track_object where
  "example_track =
     \<lparr>track_album = \<lparr>album_type = ''album'', album_id = ''AL1'', album_name = ''First'',
                     album_release_date = ''2020-01-01''\<rparr>,
      track_artists = [\<lparr>artist_id = ''A1'', artist_name = ''Artist One'', artist_type = ''artist''\<rparr>],
      track_duration_ms = 210000, track_is_local = False, track_name = ''x'',
      track_popularity = 42, track_type = ''track''\<rparr>"

definition example_features :: dict where
  "example_features =
     [(''danceability'', PFloat (1 / 2)), (''energy'', PFloat (3 / 4)), (''key'', PInt 5),
      (''loudness'', PFloat (- 6)), (''mode'', PInt 1), (''speechiness'', PFloat (1 / 20)),
      (''acousticness'', PFloat (1 / 10)), (''instrumentalness'', PFloat 0),
      (''liveness'', PFloat (1 / 5)), (''valence'', PFloat (2 / 5)), (''tempo'', PFloat 120),
      (''type'', PStr ''audio_features''), (''id'', PStr ''def456''),
      (''duration_ms'', PInt 210000), (''time_signature'', PInt 4)]"

definition example_upstream :: "(exn + response) \<Rightarrow> (exn + response) \<Rightarrow> upstream" where
  "example_upstream abc def rq =
     (if url rq = ''https://api.spotify.com/v1/search'' then
        (if map_of (params rq) ''q'' = Some ''A x''
         then Inr \<lparr>status_code = 200, payload = SearchResults [''abc123'', ''zzz999'']\<rparr>
         else if map_of (params rq) ''q'' = Some ''B y''
         then Inr \<lparr>status_code = 200, payload = SearchResults [''def456'']\<rparr>
         else Inr \<lparr>status_code = 200, payload = SearchResults []\<rparr>)
      else if url rq = ''https://api.spotify.com/v1/tracks/abc123''
              \<or> url rq = ''https://api.spotify.com/v1/tracks/def456''
      then Inr \<lparr>status_code = 200, payload = TrackObject example_track\<rparr>
      else if url rq = ''https://api.spotify.com/v1/audio-features/abc123'' then abc
      else if url rq = ''https://api.spotify.com/v1/audio-features/def456'' then def
      else Inl ConnectionError)"

definition example_Timestamp :: "string \<Rightarrow> exn + int" where
  "example_Timestamp x =
     (if x = ''1970-01-01 00:00'' then Inr 0
      else if x = ''1970-01-01 00:01'' then Inr 60000000000
      else if x = ''2262-04-11 23:47'' then Inr 9223372020000000000
      else Inl ValueError)"

definition example_history :: "streaming_record list" where
  "example_history =
     [\<lparr>artistName = ''A'', trackName = ''x'', endTime = ''1970-01-01 00:00''\<rparr>,
      \<lparr>artistName = ''B'', trackName = ''y'', endTime = ''1970-01-01 00:01''\<rparr>,
      \<lparr>artistName = ''A'', trackName = ''x'', endTime = ''1970-01-01 00:01''\<rparr>,
      \<lparr>artistName = ''C'', trackName = ''z'', endTime = ''1970-01-01 00:01''\<rparr>]"

definition other_features :: dict where
  "other_features =
     [(''danceability'', PFloat (7 / 10)), (''energy'', PInt 1), (''key'', PInt 0),
      (''loudness'', PFloat (- 5)), (''mode'', PInt 0), (''speechiness'', PFloat (1 / 25)),
      (''acousticness'', PInt 0), (''instrumentalness'', PInt 0), (''liveness'', PFloat (1 / 10)),
      (''tempo'', PInt 98), (''type'', PStr ''audio_features''), (''id'', PStr ''abc123''),
      (''time_signature'', PInt 3)]"

definition late_history :: "streaming_record list" where
  "late_history =
     [\<lparr>artistName = ''A'', trackName = ''x'', endTime = ''2262-04-11 23:47''\<rparr>,
      \<lparr>artistName = ''B'', trackName = ''y'', endTime = ''1970-01-01 00:01''\<rparr>]"

definition unavailable :: "exn + response" where
  "unavailable = Inr \<lparr>status_code = 503, payload = Unparsable\<rparr>"

definition available :: "exn + response" where
  "available = Inr \<lparr>status_code = 200, payload = AudioFeatures example_features\<rparr>"

definition second_artist :: artist where
  "second_artist = \<lparr>artist_id = ''A2'', artist_name = ''Artist Two'', artist_type = ''artist''\<rparr>"

definition unmatched_history :: "streaming_record list" where
  "unmatched_history =
     [\<lparr>artistName = ''Nonexistent Artist'', trackName = ''Nosong'', endTime = ''1970-01-01 00:00''\<rparr>]"

section \<open>Properties\<close>

subsection \<open>The library operations and the three fetch functions\<close>

lemma set_unique_from: "set (unique_from seen xs) = set xs - set seen"
  by (induction xs arbitrary: seen) auto

lemma distinct_unique_from: "distinct (unique_from seen xs)"
  by (induction xs arbitrary: seen) (auto simp: set_unique_from)

lemma set_unique: "set (unique xs) = set xs"
  by (simp add: unique_def set_unique_from)

lemma distinct_unique: "distinct (unique xs)"
  by (simp add: unique_def distinct_unique_from)

lemma unique_from_distinct: "distinct xs \<Longrightarrow> set xs \<inter> set seen = {} \<Longrightarrow> unique_from seen xs = xs"
  by (induction xs arbitrary: seen) auto

lemma unique_distinct: "distinct xs \<Longrightarrow> unique xs = xs"
  by (simp add: unique_def unique_from_distinct)

lemma set_present: "set (present xs) = {t. Some t \<in> set xs}"
  by (induction xs rule: present.induct) auto

lemma distinct_present: "distinct xs \<Longrightarrow> distinct (present xs)"
  by (induction xs rule: present.induct) (auto simp: set_present)

lemma get_id_state:
  assumes "get_id w q token s = (r, s')"
  shows "sent s' = sent s @ [search_request q token] \<and> files s' = files s"
  using assms
  by (auto simp: get_id_def requests_get_def print_def split: sum.splits if_splits payload.splits)

lemma get_id_result:
  assumes "get_id w q token s = (r, s')"
  shows "fst (get_id w q token s0) = r"
  using assms
  by (auto simp: get_id_def requests_get_def print_def split: sum.splits if_splits payload.splits)

lemma get_track_data_state:
  assumes "get_track_data w tid token s = (r, s')"
  shows "s' = s\<lparr>sent := sent s @ [track_request tid token]\<rparr>"
  using assms
  by (auto simp: get_track_data_def requests_get_def split: sum.splits if_splits payload.splits)

lemma get_track_data_keys:
  assumes "get_track_data w tid token s = (Inr d, s')"
  shows "''id_'' \<notin> fst ` set d"
  using assms
  by (auto simp: get_track_data_def requests_get_def selected_data_def
           split: sum.splits if_splits payload.splits)

lemma get_track_audio_features_state:
  assumes "get_track_audio_features w tid token s = (r, s')"
  shows "s' = s\<lparr>sent := sent s @ [features_request tid token]\<rparr>"
  using assms
  by (auto simp: get_track_audio_features_def requests_get_def split: sum.splits if_splits payload.splits)

lemma get_track_audio_features_result:
  assumes "get_track_audio_features w tid token s = (r, s')"
  shows "fst (get_track_audio_features w tid token s0) = r"
  using assms
  by (auto simp: get_track_audio_features_def requests_get_def split: sum.splits if_splits payload.splits)

lemma cell_update: "cell (AList.update k v d) k = v"
  by (simp add: cell_def update_conv')

lemma id_map_of_any:
  "id_map_of w qs token s = (r, s') \<Longrightarrow>
     files s' = files s \<and> (\<exists>n. sent s' = sent s @ take n (map (\<lambda>q. search_request q token) qs))"
proof (induction qs arbitrary: s r s')
  case Nil
  then show ?case by simp
next
  case (Cons q qs)
  obtain r1 s1 where g: "get_id w q token s = (r1, s1)" by (cases "get_id w q token s")
  note st = get_id_state [OF g]
  show ?case
  proof (cases r1)
    case (Inl e)
    with Cons.prems g have "s' = s1" by simp
    with st have "sent s' = sent s @ take 1 (map (\<lambda>q. search_request q token) (q # qs))" by simp
    with st \<open>s' = s1\<close> show ?thesis by blast
  next
    case (Inr i)
    obtain r2 s2 where l: "id_map_of w qs token s1 = (r2, s2)" by (cases "id_map_of w qs token s1")
    from Cons.IH [OF l] obtain n where
      n: "files s2 = files s1" "sent s2 = sent s1 @ take n (map (\<lambda>q. search_request q token) qs)"
      by blast
    from Cons.prems g Inr l have "s' = s2" by (auto split: sum.splits)
    with n st have "sent s' = sent s @ take (Suc n) (map (\<lambda>q. search_request q token) (q # qs))"
      by simp
    with n st \<open>s' = s2\<close> show ?thesis by metis
  qed
qed

lemma id_map_of_ok:
  "id_map_of w qs token s = (Inr m, s') \<Longrightarrow>
     sent s' = sent s @ map (\<lambda>q. search_request q token) qs \<and> map fst m = qs \<and>
     (\<forall>(q, i) \<in> set m. fst (get_id w q token s0) = Inr i)"
proof (induction qs arbitrary: s m s')
  case Nil
  then show ?case by simp
next
  case (Cons q qs)
  from Cons.prems obtain i s1 m' where
    g: "get_id w q token s = (Inr i, s1)" and l: "id_map_of w qs token s1 = (Inr m', s')"
    and m: "m = (q, i) # m'"
    by (auto split: sum.splits prod.splits)
  from Cons.IH [OF l] get_id_state [OF g] get_id_result [OF g, of s0] m
  show ?case by simp
qed

lemma tracks_data_of_any:
  "tracks_data_of w ids token s = (r, s') \<Longrightarrow>
     \<exists>n. s' = s\<lparr>sent := sent s @ take n (map (\<lambda>t. track_request t token) (present ids))\<rparr>"
proof (induction ids arbitrary: s r s')
  case Nil
  then show ?case by simp
next
  case (Cons i ids)
  show ?case
  proof (cases i)
    case None
    with Cons show ?thesis by simp
  next
    case (Some tid)
    obtain r1 s1 where g: "get_track_data w tid token s = (r1, s1)"
      by (cases "get_track_data w tid token s")
    note st = get_track_data_state [OF g]
    show ?thesis
    proof (cases r1)
      case (Inl e)
      with Cons.prems g Some have "s' = s1" by simp
      with st have "s' = s\<lparr>sent := sent s @ take 1 (map (\<lambda>t. track_request t token) (present (i # ids)))\<rparr>"
        using Some by simp
      then show ?thesis by blast
    next
      case (Inr d)
      obtain r2 s2 where l: "tracks_data_of w ids token s1 = (r2, s2)"
        by (cases "tracks_data_of w ids token s1")
      from Cons.IH [OF l] obtain n where
        n: "s2 = s1\<lparr>sent := sent s1 @ take n (map (\<lambda>t. track_request t token) (present ids))\<rparr>"
        by blast
      from Cons.prems g Inr l Some have "s' = s2" by (auto split: sum.splits)
      with n st Some
      have "s' = s\<lparr>sent := sent s @ take (Suc n) (map (\<lambda>t. track_request t token) (present (i # ids)))\<rparr>"
        by simp
      then show ?thesis by blast
    qed
  qed
qed

lemma tracks_data_of_ok:
  "tracks_data_of w ids token s = (Inr ds, s') \<Longrightarrow>
     s' = s\<lparr>sent := sent s @ map (\<lambda>t. track_request t token) (present ids)\<rparr> \<and>
     map (\<lambda>d. cell d ''id_'') ds = map PStr (present ids) \<and>
     (\<forall>d \<in> set ds. ''id_'' \<in> fst ` set d)"
proof (induction ids arbitrary: s ds s')
  case Nil
  then show ?case by simp
next
  case (Cons i ids)
  show ?case
  proof (cases i)
    case None
    with Cons show ?thesis by simp
  next
    case (Some tid)
    with Cons.prems obtain d s1 ds' where
      g: "get_track_data w tid token s = (Inr d, s1)" and
      l: "tracks_data_of w ids token s1 = (Inr ds', s')" and
      ds: "ds = AList.update ''id_'' (PStr tid) d # ds'"
      by (auto split: sum.splits prod.splits)
    from Cons.IH [OF l] get_track_data_state [OF g] ds Some
    show ?thesis by (simp add: cell_update dom_update)
  qed
qed

lemma get_track_audio_features_None:
  "get_track_audio_features w t token s = (Inr None, s') \<Longrightarrow> features_of w token t = []"
  by (auto simp: get_track_audio_features_def requests_get_def features_of_def raise_for_status_def
           split: sum.splits if_splits payload.splits)

lemma get_track_audio_features_Some:
  "get_track_audio_features w t token s = (Inr (Some f), s') \<Longrightarrow>
     features_of w token t = [AList.update ''id_'' (PStr t) f]"
  by (auto simp: get_track_audio_features_def requests_get_def features_of_def raise_for_status_def
           split: sum.splits if_splits payload.splits)

subsection \<open>The loops of the orchestrator\<close>

lemma tracks_features_data_of_any:
  "tracks_features_data_of w (map PStr tids) token s = (r, s') \<Longrightarrow>
     \<exists>n. s' = s\<lparr>sent := sent s @ take n (map (\<lambda>t. features_request t token) tids)\<rparr>"
proof (induction tids arbitrary: s r s')
  case Nil
  then show ?case by simp
next
  case (Cons t tids)
  obtain r1 s1 where g: "get_track_audio_features w t token s = (r1, s1)"
    by (cases "get_track_audio_features w t token s")
  note st = get_track_audio_features_state [OF g]
  show ?case
  proof (cases r1)
    case (Inl e)
    with Cons.prems g have "s' = s1" by simp
    with st have "s' = s\<lparr>sent := sent s @ take 1 (map (\<lambda>t. features_request t token) (t # tids))\<rparr>"
      by simp
    then show ?thesis by blast
  next
    case (Inr d)
    obtain r2 s2 where l: "tracks_features_data_of w (map PStr tids) token s1 = (r2, s2)"
      by (cases "tracks_features_data_of w (map PStr tids) token s1")
    from Cons.IH [OF l] obtain n where
      n: "s2 = s1\<lparr>sent := sent s1 @ take n (map (\<lambda>t. features_request t token) tids)\<rparr>"
      by blast
    from Cons.prems g Inr l have "s' = s2" by (auto split: sum.splits option.splits)
    with n st
    have "s' = s\<lparr>sent := sent s @ take (Suc n) (map (\<lambda>t. features_request t token) (t # tids))\<rparr>"
      by simp
    then show ?thesis by blast
  qed
qed

lemma tracks_features_data_of_ok:
  "tracks_features_data_of w (map PStr tids) token s = (Inr ds, s') \<Longrightarrow>
     s' = s\<lparr>sent := sent s @ map (\<lambda>t. features_request t token) tids\<rparr> \<and>
     ds = concat (map (features_of w token) tids)"
proof (induction tids arbitrary: s ds s')
  case Nil
  then show ?case by simp
next
  case (Cons t tids)
  obtain o1 s1 where g: "get_track_audio_features w t token s = (Inr o1, s1)"
    using Cons.prems by (auto split: sum.splits prod.splits)
  note st = get_track_audio_features_state [OF g]
  show ?case
  proof (cases o1)
    case None
    with Cons.prems g have l: "tracks_features_data_of w (map PStr tids) token s1 = (Inr ds, s')"
      by simp
    from Cons.IH [OF l] st get_track_audio_features_None [OF g [unfolded None]]
    show ?thesis by simp
  next
    case (Some f)
    with Cons.prems g obtain ds' where
      l: "tracks_features_data_of w (map PStr tids) token s1 = (Inr ds', s')" and
      ds: "ds = AList.update ''id_'' (PStr t) f # ds'"
      by (auto split: sum.splits prod.splits)
    from Cons.IH [OF l] st ds get_track_audio_features_Some [OF g [unfolded Some]]
    show ?thesis by simp
  qed
qed

lemma tracks_features_data_of_fetched:
  "tracks_features_data_of w (map PStr tids) token s = (Inr ds, s') \<Longrightarrow>
     \<forall>t \<in> set tids. \<exists>x. fst (get_track_audio_features w t token s0) = Inr x"
proof (induction tids arbitrary: s ds s')
  case Nil
  then show ?case by simp
next
  case (Cons t tids)
  obtain o1 s1 where g: "get_track_audio_features w t token s = (Inr o1, s1)"
    using Cons.prems by (auto split: sum.splits prod.splits)
  from Cons.prems g obtain ds' where "tracks_features_data_of w (map PStr tids) token s1 = (Inr ds', s')"
    by (cases o1) (auto split: sum.splits prod.splits)
  from Cons.IH [OF this] get_track_audio_features_result [OF g, of s0]
  show ?case by simp
qed

lemma features_of_absent:
  "features_of w token t = [] \<longleftrightarrow>
     (\<forall>f. fst (get_track_audio_features w t token s) \<noteq> Inr (Some f))"
  by (auto simp: get_track_audio_features_def requests_get_def features_of_def raise_for_status_def
           split: sum.splits if_splits payload.splits)

lemma features_of_id: "d \<in> set (features_of w token t) \<Longrightarrow> cell d ''id_'' = PStr t \<and> ''id_'' \<in> fst ` set d"
  by (auto simp: features_of_def raise_for_status_def cell_update dom_update split: sum.splits if_splits payload.splits)

lemma columns_DataFrame: "set (columns (DataFrame ds)) = (\<Union>d \<in> set ds. fst ` set d)"
  by (auto simp: DataFrame_def Let_def set_unique)

lemma cell_zip: "c \<in> set cols \<Longrightarrow> cell (zip cols (map f cols)) c = f c"
  by (simp add: cell_def map_of_zip_map)

lemma length_convert_column: "length (convert_column vs) = length vs"
  by (simp add: convert_column_def)

lemma length_converted: "length (converted ds c) = length ds"
  by (simp add: converted_def length_convert_column)

lemma convert_column_strings: "convert_column (map PStr ts) = map PStr ts"
  by (simp add: convert_column_def)

lemma converted_strings: "map (\<lambda>d. cell d c) ds = map PStr ts \<Longrightarrow> converted ds c = map PStr ts"
  by (simp add: converted_def convert_column_strings)

lemma column_projected:
  assumes "c \<in> set names"
  shows "column \<lparr>columns = names,
                 rows = map (\<lambda>i. map (\<lambda>x. converted ds x ! i) names) [0..<length ds]\<rparr> c
           = converted ds c"
proof -
  have "column \<lparr>columns = names,
                 rows = map (\<lambda>i. map (\<lambda>x. converted ds x ! i) names) [0..<length ds]\<rparr> c
          = map (\<lambda>i. converted ds c ! i) [0..<length ds]"
    using assms by (simp add: column_def cell_zip o_def)
  also have "\<dots> = converted ds c"
    using map_nth [of "converted ds c"] by (simp add: length_converted)
  finally show ?thesis .
qed

lemma column_DataFrame:
  "c \<in> set (columns (DataFrame ds)) \<Longrightarrow> column (DataFrame ds) c = converted ds c"
  using column_projected [of c "unique (concat (map (map fst) ds))" ds]
  by (simp add: DataFrame_def Let_def)

lemma getitem_DataFrame:
  "set names \<subseteq> set (columns (DataFrame ds)) \<Longrightarrow>
     getitem (DataFrame ds) names
       = Inr \<lparr>columns = names,
              rows = map (\<lambda>i. map (\<lambda>c. converted ds c ! i) names) [0..<length ds]\<rparr>"
proof -
  assume a: "set names \<subseteq> set (columns (DataFrame ds))"
  then have "filter (\<lambda>c. c \<notin> set (columns (DataFrame ds))) names = []"
    by (auto simp: filter_empty_conv)
  moreover have "map (\<lambda>r. map (cell (zip (columns (DataFrame ds)) r)) names) (rows (DataFrame ds))
      = map (\<lambda>i. map (\<lambda>c. converted ds c ! i) names) [0..<length ds]"
    using a by (auto simp: DataFrame_def Let_def cell_zip)
  ultimately show ?thesis by (simp add: getitem_def)
qed

lemma getitem_Inr:
  "getitem df names = Inr df' \<Longrightarrow> set names \<subseteq> set (columns df)"
  by (auto simp: getitem_def filter_empty_conv split: list.splits)

lemma getitem_Inl:
  "getitem df names = Inl e \<Longrightarrow> \<exists>c \<in> set names. c \<notin> set (columns df) \<and> e = KeyError c"
proof -
  assume "getitem df names = Inl e"
  then obtain c cs where f: "filter (\<lambda>c. c \<notin> set (columns df)) names = c # cs" and e: "e = KeyError c"
    by (auto simp: getitem_def split: list.splits)
  from f have "c \<in> set (filter (\<lambda>c. c \<notin> set (columns df)) names)" by simp
  with e show ?thesis by auto
qed

lemma traverse_Inr:
  "traverse f xs = Inr ys \<Longrightarrow> list_all2 (\<lambda>x y. f x = Inr y) xs ys"
  by (induction xs arbitrary: ys) (auto split: sum.splits)

lemma traverse_subscript:
  "set qs \<subseteq> fst ` set m \<Longrightarrow> \<exists>ids. traverse (subscript m) qs = Inr ids"
proof (induction qs)
  case Nil
  then show ?case by simp
next
  case (Cons q qs)
  then obtain ids where "traverse (subscript m) qs = Inr ids" by auto
  moreover from Cons.prems obtain v where "map_of m q = Some v"
    by (cases "map_of m q") (auto simp: map_of_eq_None_iff)
  then have "subscript m q = Inr v" by (simp add: subscript_def)
  ultimately show ?case by simp
qed

lemma subscript_Inr: "subscript m q = Inr i \<Longrightarrow> (q, i) \<in> set m"
  by (auto simp: subscript_def split: option.splits dest: map_of_SomeD)

lemma shifted_endTime_Inr:
  assumes "shifted_endTime Timestamp h = Inr ts"
  shows "h \<noteq> [] \<and> list_all2 (\<lambda>row t'. \<exists>t. Timestamp (endTime row) = Inr t \<and> t' = add_offset t) h ts"
proof -
  from assms have ne: "h \<noteq> []" by (auto simp: shifted_endTime_def split: if_splits)
  with assms obtain ts0 where
    a: "traverse Timestamp (map endTime h) = Inr ts0" and b: "ts = map add_offset ts0"
    by (auto simp: shifted_endTime_def split: sum.splits)
  from traverse_Inr [OF a] have 1: "list_all2 (\<lambda>row t. Timestamp (endTime row) = Inr t) h ts0"
    by (simp add: list_all2_map1)
  from 1 b have "list_all2 (\<lambda>row t'. \<exists>t. Timestamp (endTime row) = Inr t \<and> t' = add_offset t) h ts"
    by (auto simp: list_all2_conv_all_nth)
  with ne show ?thesis by simp
qed

lemma annotated_history_any:
  assumes "annotated_history w Timestamp h token s = (r, s')"
  shows "files s' = files s \<and>
         (\<exists>n. sent s' = sent s @ take n (map (\<lambda>q. search_request q token) (unique (map query_of h))))"
proof (cases "shifted_endTime Timestamp h")
  case (Inl e)
  with assms have "s' = s" by (simp add: annotated_history_def)
  then have "sent s' = sent s @ take 0 (map (\<lambda>q. search_request q token) (unique (map query_of h)))"
    by simp
  with \<open>s' = s\<close> show ?thesis by blast
next
  case (Inr ts)
  obtain r1 s1 where l: "id_map_of w (unique (map query_of h)) token s = (r1, s1)"
    by (cases "id_map_of w (unique (map query_of h)) token s")
  with assms Inr have "s' = s1"
    by (auto simp: annotated_history_def Let_def split: sum.splits)
  with id_map_of_any [OF l] show ?thesis by simp
qed

lemma annotated_history_ok:
  assumes "annotated_history w Timestamp h token s = (Inr df, s')"
  shows "files s' = files s \<and>
         sent s' = sent s @ map (\<lambda>q. search_request q token) (unique (map query_of h)) \<and>
         h \<noteq> [] \<and> list_all2 (annotates w Timestamp token) h df"
proof -
  from assms obtain ts m ids where
    ts: "shifted_endTime Timestamp h = Inr ts" and
    m: "id_map_of w (unique (map query_of h)) token s = (Inr m, s')" and
    ids: "traverse (subscript m) (map query_of h) = Inr ids" and
    df: "df = history_frame h ts ids"
    by (auto simp: annotated_history_def Let_def split: sum.splits prod.splits)
  note sh = shifted_endTime_Inr [OF ts]
  have mm: "\<forall>(q, i) \<in> set m. \<forall>s0. fst (get_id w q token s0) = Inr i"
    using id_map_of_ok [OF m] by blast
  from traverse_Inr [OF ids] have li: "list_all2 (\<lambda>row i. subscript m (query_of row) = Inr i) h ids"
    by (simp add: list_all2_map1)
  then have len: "length ids = length h" by (simp add: list_all2_lengthD)
  from sh have lts: "length ts = length h" by (auto dest: list_all2_lengthD)
  have "list_all2 (annotates w Timestamp token) h df"
    unfolding list_all2_conv_all_nth
  proof (intro conjI allI impI)
    show "length h = length df" using len lts by (simp add: df history_frame_def)
  next
    fix i assume i: "i < length h"
    from li i have "subscript m (query_of (h ! i)) = Inr (ids ! i)"
      by (simp add: list_all2_conv_all_nth)
    then have "(query_of (h ! i), ids ! i) \<in> set m" by (rule subscript_Inr)
    with mm have g: "\<forall>s0. fst (get_id w (query_of (h ! i)) token s0) = Inr (ids ! i)" by blast
    from sh i have t: "\<exists>t. Timestamp (endTime (h ! i)) = Inr t \<and> ts ! i = add_offset t"
      by (simp add: list_all2_conv_all_nth)
    from i len lts g t show "annotates w Timestamp token (h ! i) (df ! i)"
      by (simp add: df history_frame_def annotates_def query_of_def)
  qed
  with id_map_of_ok [OF m, of s] id_map_of_any [OF m] sh show ?thesis by simp
qed

lemma distinct_resolved_ids: "distinct (resolved_ids df)"
  by (simp add: resolved_ids_def distinct_present distinct_unique)

lemma set_resolved_ids: "set (resolved_ids df) = {t. Some t \<in> row_id ` set df}"
  by (simp add: resolved_ids_def set_present set_unique)

lemma unique_map_PStr: "distinct ts \<Longrightarrow> unique (map PStr ts) = map PStr ts"
  by (rule unique_distinct) (simp add: distinct_map inj_on_def)

lemma id_column_tracks:
  assumes "tracks_data_of w (unique (map row_id df)) token s1 = (Inr tracks_data, s2)"
    and "getattr (DataFrame tracks_data) ''id_'' = Inr id_column"
  shows "id_column = map PStr (resolved_ids df)" and "column (DataFrame tracks_data) ''id_'' = id_column"
proof -
  from assms(2) have c: "''id_'' \<in> set (columns (DataFrame tracks_data))"
    and i: "id_column = column (DataFrame tracks_data) ''id_''"
    by (auto simp: getattr_def split: if_splits)
  from i show "column (DataFrame tracks_data) ''id_'' = id_column" by simp
  from tracks_data_of_ok [OF assms(1)]
  have "map (\<lambda>d. cell d ''id_'') tracks_data = map PStr (resolved_ids df)"
    by (simp add: resolved_ids_def)
  from converted_strings [OF this] i column_DataFrame [OF c]
  show "id_column = map PStr (resolved_ids df)" by simp
qed

subsection \<open>The requests and the files of a run\<close>

lemma main_complete:
  assumes "main w Timestamp h token s = (Inr (), s')"
  shows "\<exists>df tracks_data.
           h \<noteq> [] \<and> list_all2 (annotates w Timestamp token) h df \<and>
           column (DataFrame tracks_data) ''id_'' = map PStr (resolved_ids df) \<and>
           (\<forall>t \<in> set (resolved_ids df). \<exists>x. fst (get_track_audio_features w t token s) = Inr x) \<and>
           sent s' = sent s @ map (\<lambda>q. search_request q token) (unique (map query_of h))
                       @ map (\<lambda>t. track_request t token) (resolved_ids df)
                       @ map (\<lambda>t. features_request t token) (resolved_ids df) \<and>
           files s' = (files s)
             (''data/tracks.csv'' \<mapsto> Frame (DataFrame tracks_data),
              ''data/features.csv'' \<mapsto>
                 Frame \<lparr>columns = keep_features,
                        rows = map (\<lambda>i. map (\<lambda>c. converted (collected w token (resolved_ids df)) c ! i)
                                          keep_features)
                                 [0..<length (collected w token (resolved_ids df))]\<rparr>,
              ''data/streaming_history.csv'' \<mapsto> History df)"
proof -
  from assms obtain df s1 tracks_data s2 id_column tracks_features_data s4 features_df where
    a: "annotated_history w Timestamp h token s = (Inr df, s1)" and
    t: "tracks_data_of w (unique (map row_id df)) token s1 = (Inr tracks_data, s2)" and
    g: "getattr (DataFrame tracks_data) ''id_'' = Inr id_column" and
    f: "tracks_features_data_of w (unique id_column) token
          (to_csv (Frame (DataFrame tracks_data)) ''data/tracks.csv'' s2)
        = (Inr tracks_features_data, s4)" and
    k: "getitem (DataFrame tracks_features_data) keep_features = Inr features_df" and
    s': "s' = to_csv (History df) ''data/streaming_history.csv''
               (to_csv (Frame features_df) ''data/features.csv'' s4)"
    by (auto simp: main_def Let_def split: sum.splits prod.splits)
  note A = annotated_history_ok [OF a]
  note T = tracks_data_of_ok [OF t]
  note I = id_column_tracks [OF t g]
  have u: "unique id_column = map PStr (resolved_ids df)"
    using I(1) by (simp add: unique_map_PStr distinct_resolved_ids)
  note F = tracks_features_data_of_ok [OF f [unfolded u]]
  from getitem_Inr [OF k] have "set keep_features \<subseteq> set (columns (DataFrame tracks_features_data))" .
  from getitem_DataFrame [OF this] k F
  have fd: "features_df = \<lparr>columns = keep_features,
              rows = map (\<lambda>i. map (\<lambda>c. converted (collected w token (resolved_ids df)) c ! i)
                                keep_features)
                       [0..<length (collected w token (resolved_ids df))]\<rparr>"
    by (simp add: collected_def)
  have "sent s' = sent s @ map (\<lambda>q. search_request q token) (unique (map query_of h))
                       @ map (\<lambda>t. track_request t token) (resolved_ids df)
                       @ map (\<lambda>t. features_request t token) (resolved_ids df)"
    using A T F s' by (simp add: to_csv_def resolved_ids_def)
  moreover have "files s' = (files s)
             (''data/tracks.csv'' \<mapsto> Frame (DataFrame tracks_data),
              ''data/features.csv'' \<mapsto> Frame features_df,
              ''data/streaming_history.csv'' \<mapsto> History df)"
    using A T F s' by (simp add: to_csv_def)
  moreover note tracks_features_data_of_fetched [OF f [unfolded u], of s]
  ultimately show ?thesis using A I fd by blast
qed

lemma count_list_distinct: "distinct xs \<Longrightarrow> count_list xs x = (if x \<in> set xs then 1 else 0)"
  by (induction xs) auto

lemma search_request_inj: "search_request q token = search_request q' token \<longleftrightarrow> q = q'"
  by (auto simp: search_request_def)

lemma track_request_inj: "track_request t token = track_request t' token \<longleftrightarrow> t = t'"
  by (auto simp: track_request_def)

lemma features_request_inj: "features_request t token = features_request t' token \<longleftrightarrow> t = t'"
  by (auto simp: features_request_def)

lemma requests_differ:
  "search_request q token \<noteq> track_request t token"
  "search_request q token \<noteq> features_request t token"
  "track_request t token \<noteq> features_request t' token"
  by (auto simp: search_request_def track_request_def features_request_def)

lemma urls_differ:
  "url (search_request q token) \<noteq> url (track_request t token)"
  "url (search_request q token) \<noteq> url (features_request t token)"
  "url (track_request t token) \<noteq> url (features_request t' token)"
  by (auto simp: search_request_def track_request_def features_request_def)

lemma distinct_schedule_parts:
  assumes "distinct qs" "distinct tids"
  shows "distinct (take n1 (map (\<lambda>q. search_request q token) qs)
                   @ take n2 (map (\<lambda>t. track_request t token) tids)
                   @ take n3 (map (\<lambda>t. features_request t token) tids))"
proof -
  have 1: "distinct (map (\<lambda>q. search_request q token) qs)"
    using assms(1) by (simp add: distinct_map inj_on_def search_request_inj)
  have 2: "distinct (map (\<lambda>t. track_request t token) tids)"
    using assms(2) by (simp add: distinct_map inj_on_def track_request_inj)
  have 3: "distinct (map (\<lambda>t. features_request t token) tids)"
    using assms(2) by (simp add: distinct_map inj_on_def features_request_inj)
  have d: "set (take n1 (map (\<lambda>q. search_request q token) qs)) \<subseteq> (\<lambda>q. search_request q token) ` set qs"
       "set (take n2 (map (\<lambda>t. track_request t token) tids)) \<subseteq> (\<lambda>t. track_request t token) ` set tids"
       "set (take n3 (map (\<lambda>t. features_request t token) tids)) \<subseteq> (\<lambda>t. features_request t token) ` set tids"
    using set_take_subset [of n1 "map (\<lambda>q. search_request q token) qs"]
          set_take_subset [of n2 "map (\<lambda>t. track_request t token) tids"]
          set_take_subset [of n3 "map (\<lambda>t. features_request t token) tids"]
    by auto
  from d have "set (take n1 (map (\<lambda>q. search_request q token) qs))
               \<inter> set (take n2 (map (\<lambda>t. track_request t token) tids)) = {}"
    using requests_differ(1) by fastforce
  moreover from d have "set (take n1 (map (\<lambda>q. search_request q token) qs))
               \<inter> set (take n3 (map (\<lambda>t. features_request t token) tids)) = {}"
    using requests_differ(2) by fastforce
  moreover from d have "set (take n2 (map (\<lambda>t. track_request t token) tids))
               \<inter> set (take n3 (map (\<lambda>t. features_request t token) tids)) = {}"
    using requests_differ(3) by fastforce
  ultimately show ?thesis
    using distinct_take [OF 1, of n1] distinct_take [OF 2, of n2] distinct_take [OF 3, of n3]
    by (simp add: Int_Un_distrib)
qed

lemma main_any:
  assumes "main w Timestamp h token s = (r, s')"
  shows "\<exists>n1 n2 n3 tids. distinct tids \<and>
           sent s' = sent s @ take n1 (map (\<lambda>q. search_request q token) (unique (map query_of h)))
                       @ take n2 (map (\<lambda>t. track_request t token) tids)
                       @ take n3 (map (\<lambda>t. features_request t token) tids)"
    (is "\<exists>n1 n2 n3 tids. ?P n1 n2 n3 tids")
proof -
  let ?qs = "unique (map query_of h)"
  obtain ra s1 where a: "annotated_history w Timestamp h token s = (ra, s1)"
    by (cases "annotated_history w Timestamp h token s")
  show ?thesis
  proof (cases ra)
    case (Inl e)
    with assms a have "s' = s1" by (simp add: main_def)
    with annotated_history_any [OF a] obtain n where
      "sent s' = sent s @ take n (map (\<lambda>q. search_request q token) ?qs)" by blast
    then have "?P n 0 0 []" by simp
    then show ?thesis by blast
  next
    case (Inr df)
    note A = annotated_history_ok [OF a [unfolded Inr]]
    obtain rt s2 where t: "tracks_data_of w (unique (map row_id df)) token s1 = (rt, s2)"
      by (cases "tracks_data_of w (unique (map row_id df)) token s1")
    from tracks_data_of_any [OF t] obtain n2 where
      n2: "s2 = s1\<lparr>sent := sent s1 @ take n2 (map (\<lambda>t. track_request t token) (resolved_ids df))\<rparr>"
      by (auto simp: resolved_ids_def)
    show ?thesis
    proof (cases rt)
      case (Inl e)
      with assms a t \<open>ra = Inr df\<close> have "s' = s2" by (simp add: main_def)
      with n2 A have "?P (length ?qs) n2 0 (resolved_ids df)"
        by (simp add: distinct_resolved_ids)
      then show ?thesis by blast
    next
      case (Inr tracks_data)
      note T = tracks_data_of_ok [OF t [unfolded Inr]]
      let ?s3 = "to_csv (Frame (DataFrame tracks_data)) ''data/tracks.csv'' s2"
      have s3: "sent ?s3 = sent s @ map (\<lambda>q. search_request q token) ?qs
                  @ map (\<lambda>t. track_request t token) (resolved_ids df)"
        using A T by (simp add: to_csv_def resolved_ids_def)
      show ?thesis
      proof (cases "getattr (DataFrame tracks_data) ''id_''")
        case (Inl e)
        with assms a t \<open>ra = Inr df\<close> \<open>rt = Inr tracks_data\<close> have "s' = ?s3"
          by (simp add: main_def Let_def)
        with s3 have "?P (length ?qs) (length (resolved_ids df)) 0 (resolved_ids df)"
          by (simp add: distinct_resolved_ids)
        then show ?thesis by blast
      next
        case (Inr id_column)
        note I = id_column_tracks [OF t [unfolded \<open>rt = Inr tracks_data\<close>] Inr]
        have u: "unique id_column = map PStr (resolved_ids df)"
          using I(1) by (simp add: unique_map_PStr distinct_resolved_ids)
        obtain rf s4 where f: "tracks_features_data_of w (map PStr (resolved_ids df)) token ?s3 = (rf, s4)"
          by (cases "tracks_features_data_of w (map PStr (resolved_ids df)) token ?s3")
        from tracks_features_data_of_any [OF f] obtain n3 where
          n3: "s4 = ?s3\<lparr>sent := sent ?s3 @ take n3 (map (\<lambda>t. features_request t token) (resolved_ids df))\<rparr>"
          by blast
        from assms a t f u \<open>ra = Inr df\<close> \<open>rt = Inr tracks_data\<close> Inr
        have "sent s' = sent s4"
          by (auto simp: main_def Let_def to_csv_def split: sum.splits)
        with n3 s3 have "?P (length ?qs) (length (resolved_ids df)) n3 (resolved_ids df)"
          by (simp add: distinct_resolved_ids)
        then show ?thesis by blast
      qed
    qed
  qed
qed

lemma main_sent_distinct:
  assumes "main w Timestamp h token s = (r, s')"
  shows "\<exists>new. sent s' = sent s @ new \<and> distinct new"
proof -
  from main_any [OF assms] obtain n1 n2 n3 tids where
    "distinct tids"
    "sent s' = sent s @ take n1 (map (\<lambda>q. search_request q token) (unique (map query_of h)))
                       @ take n2 (map (\<lambda>t. track_request t token) tids)
                       @ take n3 (map (\<lambda>t. features_request t token) tids)"
    by blast
  with distinct_schedule_parts [OF distinct_unique this(1), of n1 token "map query_of h" n2 n3]
  show ?thesis by blast
qed

section \<open>The claims\<close>

text \<open>
  C3. \<^verbatim>\<open>get_id\<close> sends one search request with a timeout of 5 seconds. When the answer has a
  status that \<^verbatim>\<open>raise_for_status\<close> accepts and a non-empty result list, it returns the id of
  the first item; with an empty result list it prints the query and returns \<^verbatim>\<open>None\<close>; when the
  request times out it returns \<^verbatim>\<open>None\<close>; a status from 400 to 599 leaves the function as an
  \<^verbatim>\<open>HTTPError\<close> after that one request, so nothing is retried.
\<close>

theorem get_id_first_result_or_absent:
  "timeout (search_request q token) = Some 5 \<and>
   (\<forall>r items. w (search_request q token) = Inr r \<and> (status_code r < 400 \<or> 600 \<le> status_code r)
        \<and> payload r = SearchResults items \<and> items \<noteq> []
      \<longrightarrow> get_id w q token s = (Inr (Some (hd items)), s\<lparr>sent := sent s @ [search_request q token]\<rparr>)) \<and>
   (\<forall>r. w (search_request q token) = Inr r \<and> (status_code r < 400 \<or> 600 \<le> status_code r)
        \<and> payload r = SearchResults []
      \<longrightarrow> get_id w q token s
            = (Inr None, s\<lparr>sent := sent s @ [search_request q token], printed := printed s @ [q]\<rparr>)) \<and>
   (w (search_request q token) = Inl Timeout
      \<longrightarrow> get_id w q token s = (Inr None, s\<lparr>sent := sent s @ [search_request q token]\<rparr>)) \<and>
   (\<forall>r. w (search_request q token) = Inr r \<and> 400 \<le> status_code r \<and> status_code r < 600
      \<longrightarrow> get_id w q token s
            = (Inl (HTTPError (status_code r)), s\<lparr>sent := sent s @ [search_request q token]\<rparr>))"
proof (intro conjI allI impI)
  show "timeout (search_request q token) = Some 5" by (simp add: search_request_def)
next
  fix r items
  assume "w (search_request q token) = Inr r \<and> (status_code r < 400 \<or> 600 \<le> status_code r)
        \<and> payload r = SearchResults items \<and> items \<noteq> []"
  then show "get_id w q token s = (Inr (Some (hd items)), s\<lparr>sent := sent s @ [search_request q token]\<rparr>)"
    by (auto simp: get_id_def requests_get_def raise_for_status_def hd_conv_nth)
next
  fix r
  assume "w (search_request q token) = Inr r \<and> (status_code r < 400 \<or> 600 \<le> status_code r)
        \<and> payload r = SearchResults []"
  then show "get_id w q token s
            = (Inr None, s\<lparr>sent := sent s @ [search_request q token], printed := printed s @ [q]\<rparr>)"
    by (auto simp: get_id_def requests_get_def raise_for_status_def print_def)
next
  assume "w (search_request q token) = Inl Timeout"
  then show "get_id w q token s = (Inr None, s\<lparr>sent := sent s @ [search_request q token]\<rparr>)"
    by (simp add: get_id_def requests_get_def)
next
  fix r
  assume "w (search_request q token) = Inr r \<and> 400 \<le> status_code r \<and> status_code r < 600"
  then show "get_id w q token s
            = (Inl (HTTPError (status_code r)), s\<lparr>sent := sent s @ [search_request q token]\<rparr>)"
    by (simp add: get_id_def requests_get_def raise_for_status_def)
qed

theorem get_id_first_result_or_absent_witness:
  "get_id (\<lambda>rq. Inr \<lparr>status_code = 200, payload = SearchResults [''abc123'', ''zzz999'']\<rparr>)
      ''A x'' ''tok'' fresh
     = (Inr (Some ''abc123''), fresh\<lparr>sent := sent fresh @ [search_request ''A x'' ''tok'']\<rparr>) \<and>
   get_id (\<lambda>rq. Inr \<lparr>status_code = 200, payload = SearchResults []\<rparr>)
      ''Nonexistent Artist Nosong'' ''tok'' fresh
     = (Inr None, fresh\<lparr>sent := sent fresh @ [search_request ''Nonexistent Artist Nosong'' ''tok''],
                       printed := printed fresh @ [''Nonexistent Artist Nosong'']\<rparr>) \<and>
   get_id (\<lambda>rq. Inl Timeout) ''A x'' ''tok'' fresh
     = (Inr None, fresh\<lparr>sent := sent fresh @ [search_request ''A x'' ''tok'']\<rparr>) \<and>
   get_id (\<lambda>rq. Inr \<lparr>status_code = 429, payload = Unparsable\<rparr>) ''A x'' ''tok'' fresh
     = (Inl (HTTPError 429), fresh\<lparr>sent := sent fresh @ [search_request ''A x'' ''tok'']\<rparr>)"
  using
    get_id_first_result_or_absent
      [of "''A x''" "''tok''" "\<lambda>rq. Inr \<lparr>status_code = 200, payload = SearchResults [''abc123'', ''zzz999'']\<rparr>" fresh]
    get_id_first_result_or_absent
      [of "''Nonexistent Artist Nosong''" "''tok''" "\<lambda>rq. Inr \<lparr>status_code = 200, payload = SearchResults []\<rparr>" fresh]
    get_id_first_result_or_absent [of "''A x''" "''tok''" "\<lambda>rq. Inl Timeout" fresh]
    get_id_first_result_or_absent
      [of "''A x''" "''tok''" "\<lambda>rq. Inr \<lparr>status_code = 429, payload = Unparsable\<rparr>" fresh]
  by simp

text \<open>
  C5. For a response that carries a track object: whenever \<^verbatim>\<open>get_track_data\<close> returns a row,
  the three fields \<^verbatim>\<open>artist2_id\<close>, \<^verbatim>\<open>artist2_name\<close> and \<^verbatim>\<open>artist2_type\<close> of the row are all \<^verbatim>\<open>None\<close>
  when the artist list has fewer than two entries, and the id, name and type of the second
  artist when it has two or more; and a row is returned whenever the status is not one that
  \<^verbatim>\<open>raise_for_status\<close> raises for and the artist list is not empty (\<^verbatim>\<open>artists[0]\<close> is read
  first).
\<close>

theorem get_track_data_second_artist:
  assumes "w (track_request track_id token) = Inr r"
    and "payload r = TrackObject track_data"
  shows "(\<forall>d s'. get_track_data w track_id token s = (Inr d, s') \<longrightarrow>
             (length (track_artists track_data) < 2 \<longrightarrow>
                map_of d ''artist2_id'' = Some PNone \<and>
                map_of d ''artist2_name'' = Some PNone \<and>
                map_of d ''artist2_type'' = Some PNone) \<and>
             (2 \<le> length (track_artists track_data) \<longrightarrow>
                map_of d ''artist2_id'' = Some (PStr (artist_id (track_artists track_data ! 1))) \<and>
                map_of d ''artist2_name'' = Some (PStr (artist_name (track_artists track_data ! 1))) \<and>
                map_of d ''artist2_type'' = Some (PStr (artist_type (track_artists track_data ! 1))))) \<and>
         ((status_code r < 400 \<or> 600 \<le> status_code r) \<and> track_artists track_data \<noteq> [] \<longrightarrow>
             (\<exists>d. get_track_data w track_id token s
                    = (Inr d, s\<lparr>sent := sent s @ [track_request track_id token]\<rparr>)))"
proof (intro conjI allI impI)
  fix d s'
  assume "get_track_data w track_id token s = (Inr d, s')"
  with assms have d: "d = selected_data track_data"
    by (auto simp: get_track_data_def requests_get_def split: sum.splits if_splits)
  {
    assume "length (track_artists track_data) < 2"
    then show "map_of d ''artist2_id'' = Some PNone" "map_of d ''artist2_name'' = Some PNone"
      "map_of d ''artist2_type'' = Some PNone"
      by (simp_all add: d selected_data_def)
  }
  {
    assume "2 \<le> length (track_artists track_data)"
    then show "map_of d ''artist2_id'' = Some (PStr (artist_id (track_artists track_data ! 1)))"
      "map_of d ''artist2_name'' = Some (PStr (artist_name (track_artists track_data ! 1)))"
      "map_of d ''artist2_type'' = Some (PStr (artist_type (track_artists track_data ! 1)))"
      by (simp_all add: d selected_data_def)
  }
next
  assume "(status_code r < 400 \<or> 600 \<le> status_code r) \<and> track_artists track_data \<noteq> []"
  with assms have "get_track_data w track_id token s
          = (Inr (selected_data track_data), s\<lparr>sent := sent s @ [track_request track_id token]\<rparr>)"
    by (auto simp: get_track_data_def requests_get_def raise_for_status_def)
  then show "\<exists>d. get_track_data w track_id token s
                    = (Inr d, s\<lparr>sent := sent s @ [track_request track_id token]\<rparr>)"
    by blast
qed

theorem get_track_data_second_artist_witness:
  "(\<exists>d. get_track_data (\<lambda>rq. Inr \<lparr>status_code = 200, payload = TrackObject example_track\<rparr>)
            ''abc123'' ''tok'' fresh
          = (Inr d, fresh\<lparr>sent := sent fresh @ [track_request ''abc123'' ''tok'']\<rparr>) \<and>
        map_of d ''artist2_id'' = Some PNone \<and> map_of d ''artist2_name'' = Some PNone \<and>
        map_of d ''artist2_type'' = Some PNone) \<and>
   (\<exists>d. get_track_data
            (\<lambda>rq. Inr \<lparr>status_code = 200,
                        payload = TrackObject
                          (example_track\<lparr>track_artists := track_artists example_track @ [second_artist]\<rparr>)\<rparr>)
            ''abc123'' ''tok'' fresh
          = (Inr d, fresh\<lparr>sent := sent fresh @ [track_request ''abc123'' ''tok'']\<rparr>) \<and>
        map_of d ''artist2_id'' = Some (PStr ''A2'') \<and>
        map_of d ''artist2_name'' = Some (PStr ''Artist Two'') \<and>
        map_of d ''artist2_type'' = Some (PStr ''artist''))"
proof -
  let ?r1 = "\<lparr>status_code = 200, payload = TrackObject example_track\<rparr>"
  let ?two = "example_track\<lparr>track_artists := track_artists example_track @ [second_artist]\<rparr>"
  let ?r2 = "\<lparr>status_code = 200, payload = TrackObject ?two\<rparr>"
  note one = get_track_data_second_artist
    [where w = "\<lambda>rq. Inr ?r1" and track_id = "''abc123''" and token = "''tok''" and r = ?r1
       and track_data = example_track and s = fresh]
  note two = get_track_data_second_artist
    [where w = "\<lambda>rq. Inr ?r2" and track_id = "''abc123''" and token = "''tok''" and r = ?r2
       and track_data = ?two and s = fresh]
  from one obtain d1 where
    "get_track_data (\<lambda>rq. Inr ?r1) ''abc123'' ''tok'' fresh
       = (Inr d1, fresh\<lparr>sent := sent fresh @ [track_request ''abc123'' ''tok'']\<rparr>)"
    by (auto simp: example_track_def)
  moreover from this one have "map_of d1 ''artist2_id'' = Some PNone \<and>
      map_of d1 ''artist2_name'' = Some PNone \<and> map_of d1 ''artist2_type'' = Some PNone"
    by (simp add: example_track_def)
  moreover from two obtain d2 where
    "get_track_data (\<lambda>rq. Inr ?r2) ''abc123'' ''tok'' fresh
       = (Inr d2, fresh\<lparr>sent := sent fresh @ [track_request ''abc123'' ''tok'']\<rparr>)"
    by (auto simp: example_track_def)
  moreover from this two have "map_of d2 ''artist2_id'' = Some (PStr ''A2'') \<and>
      map_of d2 ''artist2_name'' = Some (PStr ''Artist Two'') \<and>
      map_of d2 ''artist2_type'' = Some (PStr ''artist'')"
    by (simp add: example_track_def second_artist_def)
  ultimately show ?thesis by blast
qed

text \<open>
  C1. On the mock upstream whose audio-feature endpoint times out for \<^verbatim>\<open>abc123\<close>,
  \<^verbatim>\<open>get_track_audio_features\<close> raises \<^verbatim>\<open>Timeout\<close> instead of returning \<^verbatim>\<open>None\<close>, and the run of
  \<^verbatim>\<open>main\<close> ends with that exception before the feature table and the history are written.
\<close>

theorem features_timeout_is_raised:
  "get_track_audio_features (example_upstream (Inl Timeout) available) ''abc123'' ''tok'' fresh
     = (Inl Timeout, fresh\<lparr>sent := [features_request ''abc123'' ''tok'']\<rparr>) \<and>
   fst (main (example_upstream (Inl Timeout) available) example_Timestamp example_history ''tok'' fresh)
     = Inl Timeout \<and>
   files (snd (main (example_upstream (Inl Timeout) available) example_Timestamp example_history
                 ''tok'' fresh)) ''data/features.csv'' = None \<and>
   files (snd (main (example_upstream (Inl Timeout) available) example_Timestamp example_history
                 ''tok'' fresh)) ''data/streaming_history.csv'' = None"
proof -
  have "get_track_audio_features (example_upstream (Inl Timeout) available) ''abc123'' ''tok'' fresh
     = (Inl Timeout, fresh\<lparr>sent := [features_request ''abc123'' ''tok'']\<rparr>)"
    by (simp add: get_track_audio_features_def requests_get_def example_upstream_def
          features_request_def fresh_def)
  moreover have
    "fst (main (example_upstream (Inl Timeout) available) example_Timestamp example_history ''tok'' fresh)
       = Inl Timeout"
    by code_simp
  moreover have
    "files (snd (main (example_upstream (Inl Timeout) available) example_Timestamp example_history
                 ''tok'' fresh)) ''data/features.csv'' = None"
    by code_simp
  moreover have
    "files (snd (main (example_upstream (Inl Timeout) available) example_Timestamp example_history
                 ''tok'' fresh)) ''data/streaming_history.csv'' = None"
    by code_simp
  ultimately show ?thesis by blast
qed

lemma features_of_cases:
  "features_of w token t = [] \<or> (\<exists>f. features_of w token t = [AList.update ''id_'' (PStr t) f])"
  by (auto simp: features_of_def raise_for_status_def split: sum.splits payload.splits)

lemma collected_ids:
  "map (\<lambda>d. cell d ''id_'') (collected w token tids)
     = map PStr (filter (\<lambda>t. features_of w token t \<noteq> []) tids)"
proof (induction tids)
  case Nil
  then show ?case by (simp add: collected_def)
next
  case (Cons t tids)
  from features_of_cases [of w token t] Cons show ?case
    by (auto simp: cell_update collected_def)
qed

lemma features_id_column:
  "converted (collected w token tids) ''id_''
     = map PStr (filter (\<lambda>t. features_of w token t \<noteq> []) tids)"
  by (rule converted_strings) (rule collected_ids)

lemma id_in_keep_features: "''id_'' \<in> set keep_features"
  by (simp add: keep_features_def)

lemma features_of_unavailable:
  "w (features_request t token) = Inr r \<Longrightarrow> status_code r = 503 \<Longrightarrow> features_of w token t = []"
  by (simp add: features_of_def)

lemma annotates_resolved:
  assumes "list_all2 (annotates w Timestamp token) h df"
    and "row \<in> set h"
    and "fst (get_id w (artistName row @ '' '' @ trackName row) token s) = Inr i"
  shows "i \<in> row_id ` set df"
proof -
  from assms(2) obtain n where n: "n < length h" "h ! n = row" by (auto simp: in_set_conv_nth)
  with assms(1) have a: "annotates w Timestamp token row (df ! n)" and l: "n < length df"
    by (auto simp: list_all2_conv_all_nth)
  from a have q: "row_artist_track (df ! n) = artistName row @ '' '' @ trackName row"
    and g: "\<forall>s0. fst (get_id w (row_artist_track (df ! n)) token s0) = Inr (row_id (df ! n))"
    unfolding annotates_def by blast+
  from g have "fst (get_id w (row_artist_track (df ! n)) token s) = Inr (row_id (df ! n))" by blast
  with q assms(3) have "row_id (df ! n) = i" by simp
  with l show ?thesis by (metis imageI nth_mem)
qed

text \<open>
  C4. For a track id whose audio-feature request is answered with a response:
  status 503 makes \<^verbatim>\<open>get_track_audio_features\<close> return \<^verbatim>\<open>None\<close>, although 503 is one of the
  statuses \<^verbatim>\<open>raise_for_status\<close> raises for; every other status from 400 to 599 is raised as an
  \<^verbatim>\<open>HTTPError\<close>; and in a completed run in which some record of the history resolves to that
  id and its features answer 503, the id is in the column \<^verbatim>\<open>id_\<close> of \<^verbatim>\<open>tracks.csv\<close> and not in
  the column \<^verbatim>\<open>id_\<close> of \<^verbatim>\<open>features.csv\<close>.
\<close>

theorem unavailable_features_are_absent:
  assumes "w (features_request tid token) = Inr r"
  shows "(status_code r = 503 \<longrightarrow>
            get_track_audio_features w tid token s
              = (Inr None, s\<lparr>sent := sent s @ [features_request tid token]\<rparr>)) \<and>
         (400 \<le> status_code r \<and> status_code r < 600 \<and> status_code r \<noteq> 503 \<longrightarrow>
            get_track_audio_features w tid token s
              = (Inl (HTTPError (status_code r)), s\<lparr>sent := sent s @ [features_request tid token]\<rparr>)) \<and>
         (status_code r = 503 \<and> main w Timestamp h token s = (Inr (), s') \<and>
          (\<exists>row \<in> set h. fst (get_id w (artistName row @ '' '' @ trackName row) token s) = Inr (Some tid))
          \<longrightarrow> (\<exists>tracks features.
                  files s' ''data/tracks.csv'' = Some (Frame tracks) \<and>
                  files s' ''data/features.csv'' = Some (Frame features) \<and>
                  PStr tid \<in> set (column tracks ''id_'') \<and>
                  PStr tid \<notin> set (column features ''id_'')))"
proof (intro conjI impI)
  assume "status_code r = 503"
  with assms show "get_track_audio_features w tid token s
              = (Inr None, s\<lparr>sent := sent s @ [features_request tid token]\<rparr>)"
    by (simp add: get_track_audio_features_def requests_get_def)
next
  assume "400 \<le> status_code r \<and> status_code r < 600 \<and> status_code r \<noteq> 503"
  with assms show "get_track_audio_features w tid token s
              = (Inl (HTTPError (status_code r)), s\<lparr>sent := sent s @ [features_request tid token]\<rparr>)"
    by (simp add: get_track_audio_features_def requests_get_def raise_for_status_def)
next
  assume a: "status_code r = 503 \<and> main w Timestamp h token s = (Inr (), s') \<and>
          (\<exists>row \<in> set h. fst (get_id w (artistName row @ '' '' @ trackName row) token s) = Inr (Some tid))"
  then obtain row where row: "row \<in> set h"
    "fst (get_id w (artistName row @ '' '' @ trackName row) token s) = Inr (Some tid)"
    by blast
  from a main_complete [of w Timestamp h token s s'] obtain df tracks_data where
    an: "list_all2 (annotates w Timestamp token) h df" and
    col: "column (DataFrame tracks_data) ''id_'' = map PStr (resolved_ids df)" and
    fl: "files s' = (files s)
             (''data/tracks.csv'' \<mapsto> Frame (DataFrame tracks_data),
              ''data/features.csv'' \<mapsto>
                 Frame \<lparr>columns = keep_features,
                        rows = map (\<lambda>i. map (\<lambda>c. converted (collected w token (resolved_ids df)) c ! i)
                                          keep_features)
                                 [0..<length (collected w token (resolved_ids df))]\<rparr>,
              ''data/streaming_history.csv'' \<mapsto> History df)"
    by blast
  let ?features = "\<lparr>columns = keep_features,
                        rows = map (\<lambda>i. map (\<lambda>c. converted (collected w token (resolved_ids df)) c ! i)
                                          keep_features)
                                 [0..<length (collected w token (resolved_ids df))]\<rparr>"
  from annotates_resolved [OF an row] have "tid \<in> set (resolved_ids df)"
    by (simp add: set_resolved_ids)
  with col have 1: "PStr tid \<in> set (column (DataFrame tracks_data) ''id_'')" by simp
  have "column ?features ''id_''
          = map PStr (filter (\<lambda>t. features_of w token t \<noteq> []) (resolved_ids df))"
    by (simp add: column_projected [OF id_in_keep_features] features_id_column)
  moreover from a assms have "features_of w token tid = []" by (simp add: features_of_unavailable)
  ultimately have 2: "PStr tid \<notin> set (column ?features ''id_'')" by auto
  from fl have "files s' ''data/tracks.csv'' = Some (Frame (DataFrame tracks_data))"
    and "files s' ''data/features.csv'' = Some (Frame ?features)"
    by simp_all
  with 1 2 show "\<exists>tracks features.
                  files s' ''data/tracks.csv'' = Some (Frame tracks) \<and>
                  files s' ''data/features.csv'' = Some (Frame features) \<and>
                  PStr tid \<in> set (column tracks ''id_'') \<and>
                  PStr tid \<notin> set (column features ''id_'')"
    by blast
qed

theorem unavailable_features_are_absent_witness:
  "get_track_audio_features (example_upstream unavailable available) ''abc123'' ''tok'' fresh
     = (Inr None, fresh\<lparr>sent := sent fresh @ [features_request ''abc123'' ''tok'']\<rparr>) \<and>
   get_track_audio_features
       (example_upstream (Inr \<lparr>status_code = 404, payload = Unparsable\<rparr>) available)
       ''abc123'' ''tok'' fresh
     = (Inl (HTTPError 404), fresh\<lparr>sent := sent fresh @ [features_request ''abc123'' ''tok'']\<rparr>) \<and>
   (\<exists>tracks features.
      files (snd (main (example_upstream unavailable available) example_Timestamp example_history
                    ''tok'' fresh)) ''data/tracks.csv'' = Some (Frame tracks) \<and>
      files (snd (main (example_upstream unavailable available) example_Timestamp example_history
                    ''tok'' fresh)) ''data/features.csv'' = Some (Frame features) \<and>
      PStr ''abc123'' \<in> set (column tracks ''id_'') \<and>
      PStr ''abc123'' \<notin> set (column features ''id_''))"
proof -
  let ?w = "example_upstream unavailable available"
  let ?w' = "example_upstream (Inr \<lparr>status_code = 404, payload = Unparsable\<rparr>) available"
  have u: "?w (features_request ''abc123'' ''tok'') = Inr \<lparr>status_code = 503, payload = Unparsable\<rparr>"
    by (simp add: example_upstream_def features_request_def unavailable_def)
  have u': "?w' (features_request ''abc123'' ''tok'') = Inr \<lparr>status_code = 404, payload = Unparsable\<rparr>"
    by (simp add: example_upstream_def features_request_def)
  have "fst (main ?w example_Timestamp example_history ''tok'' fresh) = Inr ()"
    by code_simp
  then have run: "main ?w example_Timestamp example_history ''tok'' fresh
                    = (Inr (), snd (main ?w example_Timestamp example_history ''tok'' fresh))"
    by (simp add: prod_eq_iff)
  have res: "\<exists>row \<in> set example_history.
               fst (get_id ?w (artistName row @ '' '' @ trackName row) ''tok'' fresh) = Inr (Some ''abc123'')"
    by code_simp
  from unavailable_features_are_absent
         [where w = ?w and tid = "''abc123''" and token = "''tok''"
            and r = "\<lparr>status_code = 503, payload = Unparsable\<rparr>" and s = fresh
            and Timestamp = example_Timestamp and h = example_history
            and s' = "snd (main ?w example_Timestamp example_history ''tok'' fresh)"]
       unavailable_features_are_absent
         [where w = ?w' and tid = "''abc123''" and token = "''tok''"
            and r = "\<lparr>status_code = 404, payload = Unparsable\<rparr>" and s = fresh]
       u u' run res
  show ?thesis by simp
qed

lemma example_run_completes:
  "main (example_upstream unavailable available) example_Timestamp example_history ''tok'' fresh
     = (Inr (), snd (main (example_upstream unavailable available) example_Timestamp example_history
                       ''tok'' fresh))"
proof -
  have "fst (main (example_upstream unavailable available) example_Timestamp example_history
               ''tok'' fresh) = Inr ()"
    by code_simp
  then show ?thesis by (simp add: prod_eq_iff)
qed

lemma annotates_rows:
  assumes "list_all2 (annotates w Timestamp token) h df" and "a \<in> set df"
  shows "fst (get_id w (row_artist_track a) token s0) = Inr (row_id a)"
proof -
  from assms(2) obtain n where n: "n < length df" "df ! n = a" by (auto simp: in_set_conv_nth)
  with assms(1) have "annotates w Timestamp token (h ! n) a"
    by (auto simp: list_all2_conv_all_nth)
  then show ?thesis unfolding annotates_def by blast
qed

lemma add_offset_exact:
  assumes "- (2 ^ 63) < t" and "t + 3 * 3600 * 1000000000 \<le> 2 ^ 63 - 1"
  shows "add_offset t = t + 3 * 3600 * 1000000000"
proof -
  from assms have "0 \<le> t + hours3 + 2 ^ 63" "t + hours3 + 2 ^ 63 < 2 ^ 64"
    by (simp_all add: hours3_def)
  then have "(t + hours3 + 2 ^ 63) mod 2 ^ 64 = t + hours3 + 2 ^ 63"
    by (rule mod_pos_pos_trivial)
  with assms(1) show ?thesis by (simp add: add_offset_def NaT_def wrap_int64_def hours3_def)
qed

lemma add_offset_wraps:
  assumes "2 ^ 63 - 1 < t + 3 * 3600 * 1000000000" and "t \<le> 2 ^ 63 - 1"
  shows "add_offset t = t + 3 * 3600 * 1000000000 - 2 ^ 64"
proof -
  define y where "y = t + hours3 + 2 ^ 63 - 2 ^ 64"
  have e: "t + hours3 + 2 ^ 63 = y + 2 ^ 64" by (simp add: y_def)
  from assms have b: "0 \<le> y" "y < 2 ^ 64" by (simp_all add: y_def hours3_def)
  have "(y + 2 ^ 64) mod 2 ^ 64 = y mod 2 ^ 64" by (rule mod_add_self2)
  also from b have "\<dots> = y" by (rule mod_pos_pos_trivial)
  finally have "wrap_int64 (t + hours3) = y - 2 ^ 63"
    unfolding wrap_int64_def e by simp
  moreover from assms have "t \<noteq> NaT" by (simp add: NaT_def)
  ultimately show ?thesis by (simp add: add_offset_def hours3_def y_def)
qed

text \<open>
  C6, as stated, fails: for a record whose time is 2262-04-11 23:47 the run completes and
  the \<^verbatim>\<open>endTime\<close> written is not that time plus three hours, which no 64-bit count of
  nanoseconds holds, but the sum wrapped around.
\<close>

theorem late_endTime_wraps_around:
  "fst (main (example_upstream unavailable available) example_Timestamp late_history ''tok'' fresh)
     = Inr () \<and>
   example_Timestamp (endTime (late_history ! 0)) = Inr 9223372020000000000 \<and>
   files (snd (main (example_upstream unavailable available) example_Timestamp late_history
                 ''tok'' fresh)) ''data/streaming_history.csv''
     = Some (History
         [\<lparr>row_artistName = ''A'', row_trackName = ''x'', row_endTime = - 9223361253709551616,
           row_artist_track = ''A x'', row_id = Some ''abc123''\<rparr>,
          \<lparr>row_artistName = ''B'', row_trackName = ''y'', row_endTime = 10860000000000,
           row_artist_track = ''B y'', row_id = Some ''def456''\<rparr>]) \<and>
   (- 9223361253709551616 :: int) \<noteq> 9223372020000000000 + 3 * 3600 * 1000000000"
proof -
  have "fst (main (example_upstream unavailable available) example_Timestamp late_history
               ''tok'' fresh) = Inr ()"
    by code_simp
  moreover have "example_Timestamp (endTime (late_history ! 0)) = Inr 9223372020000000000"
    by code_simp
  moreover have
    "files (snd (main (example_upstream unavailable available) example_Timestamp late_history
                 ''tok'' fresh)) ''data/streaming_history.csv''
     = Some (History
         [\<lparr>row_artistName = ''A'', row_trackName = ''x'', row_endTime = - 9223361253709551616,
           row_artist_track = ''A x'', row_id = Some ''abc123''\<rparr>,
          \<lparr>row_artistName = ''B'', row_trackName = ''y'', row_endTime = 10860000000000,
           row_artist_track = ''B y'', row_id = Some ''def456''\<rparr>])"
    by code_simp
  moreover have "(- 9223361253709551616 :: int) \<noteq> 9223372020000000000 + 3 * 3600 * 1000000000"
    by simp
  ultimately show ?thesis by blast
qed

text \<open>
  C6, amended. In a run that completes, \<^verbatim>\<open>streaming_history.csv\<close> holds a table with as many
  rows as the history read, row \<open>i\<close> of the table coming from record \<open>i\<close> of the history. The
  \<^verbatim>\<open>endTime\<close> of a row is the timestamp of its record plus three hours (in nanoseconds)
  whenever that sum is at most \<open>2\<^sup>6\<^sup>3 - 1\<close>, the largest timestamp; a larger sum is written
  wrapped around, less \<open>2\<^sup>6\<^sup>4\<close>; and \<open>NaT\<close>, the value \<open>- 2\<^sup>6\<^sup>3\<close>, stays \<open>NaT\<close>.
\<close>

theorem history_rows_offset:
  assumes "main w Timestamp h token s = (Inr (), s')"
  shows "\<exists>df. files s' ''data/streaming_history.csv'' = Some (History df) \<and>
              length df = length h \<and>
              (\<forall>i < length h.
                 row_artistName (df ! i) = artistName (h ! i) \<and>
                 row_trackName (df ! i) = trackName (h ! i) \<and>
                 (\<exists>t. Timestamp (endTime (h ! i)) = Inr t \<and>
                      (- (2 ^ 63) < t \<and> t + 3 * 3600 * 1000000000 \<le> 2 ^ 63 - 1 \<longrightarrow>
                         row_endTime (df ! i) = t + 3 * 3600 * 1000000000) \<and>
                      (2 ^ 63 - 1 < t + 3 * 3600 * 1000000000 \<and> t \<le> 2 ^ 63 - 1 \<longrightarrow>
                         row_endTime (df ! i) = t + 3 * 3600 * 1000000000 - 2 ^ 64) \<and>
                      (t = - (2 ^ 63) \<longrightarrow> row_endTime (df ! i) = - (2 ^ 63))))"
proof -
  from main_complete [OF assms] obtain df where
    an: "list_all2 (annotates w Timestamp token) h df" and
    fl: "files s' ''data/streaming_history.csv'' = Some (History df)"
    by force
  from an have "length df = length h" by (simp add: list_all2_lengthD)
  moreover have "\<forall>i < length h.
                 row_artistName (df ! i) = artistName (h ! i) \<and>
                 row_trackName (df ! i) = trackName (h ! i) \<and>
                 (\<exists>t. Timestamp (endTime (h ! i)) = Inr t \<and>
                      (- (2 ^ 63) < t \<and> t + 3 * 3600 * 1000000000 \<le> 2 ^ 63 - 1 \<longrightarrow>
                         row_endTime (df ! i) = t + 3 * 3600 * 1000000000) \<and>
                      (2 ^ 63 - 1 < t + 3 * 3600 * 1000000000 \<and> t \<le> 2 ^ 63 - 1 \<longrightarrow>
                         row_endTime (df ! i) = t + 3 * 3600 * 1000000000 - 2 ^ 64) \<and>
                      (t = - (2 ^ 63) \<longrightarrow> row_endTime (df ! i) = - (2 ^ 63)))"
  proof (intro allI impI)
    fix i assume "i < length h"
    with an have "annotates w Timestamp token (h ! i) (df ! i)"
      by (simp add: list_all2_conv_all_nth)
    then obtain t where n: "row_artistName (df ! i) = artistName (h ! i)"
      "row_trackName (df ! i) = trackName (h ! i)"
      and t: "Timestamp (endTime (h ! i)) = Inr t" "row_endTime (df ! i) = add_offset t"
      unfolding annotates_def by blast
    have "t = - (2 ^ 63) \<longrightarrow> add_offset t = - (2 ^ 63)"
      by (simp add: add_offset_def NaT_def)
    with n t add_offset_exact [of t] add_offset_wraps [of t]
    show "row_artistName (df ! i) = artistName (h ! i) \<and>
                 row_trackName (df ! i) = trackName (h ! i) \<and>
                 (\<exists>t. Timestamp (endTime (h ! i)) = Inr t \<and>
                      (- (2 ^ 63) < t \<and> t + 3 * 3600 * 1000000000 \<le> 2 ^ 63 - 1 \<longrightarrow>
                         row_endTime (df ! i) = t + 3 * 3600 * 1000000000) \<and>
                      (2 ^ 63 - 1 < t + 3 * 3600 * 1000000000 \<and> t \<le> 2 ^ 63 - 1 \<longrightarrow>
                         row_endTime (df ! i) = t + 3 * 3600 * 1000000000 - 2 ^ 64) \<and>
                      (t = - (2 ^ 63) \<longrightarrow> row_endTime (df ! i) = - (2 ^ 63)))"
      by auto
  qed
  ultimately show ?thesis using fl by blast
qed

theorem history_rows_offset_witness:
  "main (example_upstream unavailable available) example_Timestamp example_history ''tok'' fresh
     = (Inr (), snd (main (example_upstream unavailable available) example_Timestamp example_history
                       ''tok'' fresh)) \<and>
   (\<exists>df. files (snd (main (example_upstream unavailable available) example_Timestamp
                        example_history ''tok'' fresh)) ''data/streaming_history.csv''
            = Some (History df) \<and>
         length df = length example_history \<and>
         (\<forall>i < length example_history.
            row_artistName (df ! i) = artistName (example_history ! i) \<and>
            row_trackName (df ! i) = trackName (example_history ! i) \<and>
            (\<exists>t. example_Timestamp (endTime (example_history ! i)) = Inr t \<and>
                 (- (2 ^ 63) < t \<and> t + 3 * 3600 * 1000000000 \<le> 2 ^ 63 - 1 \<longrightarrow>
                    row_endTime (df ! i) = t + 3 * 3600 * 1000000000) \<and>
                 (2 ^ 63 - 1 < t + 3 * 3600 * 1000000000 \<and> t \<le> 2 ^ 63 - 1 \<longrightarrow>
                    row_endTime (df ! i) = t + 3 * 3600 * 1000000000 - 2 ^ 64) \<and>
                 (t = - (2 ^ 63) \<longrightarrow> row_endTime (df ! i) = - (2 ^ 63)))))"
  using example_run_completes history_rows_offset [OF example_run_completes]
  by (rule conjI)

text \<open>
  C7. In every run, completed or not, no search request is sent twice, and every search
  request sent is the one for \<^verbatim>\<open>artistName + ' ' + trackName\<close> of some record. In a run that
  completes, the search request of every record's query is sent exactly once, the column
  \<^verbatim>\<open>artist+track\<close> of row \<open>i\<close> is that string for record \<open>i\<close>, the column \<^verbatim>\<open>id_\<close> of a row is what
  \<^verbatim>\<open>get_id\<close> returns for its query, and two rows with the same query have the same \<^verbatim>\<open>id_\<close>.
\<close>

theorem resolver_once_per_query:
  assumes "main w Timestamp h token s = (r, s')"
  shows "\<exists>new. sent s' = sent s @ new \<and>
           (\<forall>q. count_list new (search_request q token) \<le> 1) \<and>
           (\<forall>rq \<in> set new. url rq = ''https://api.spotify.com/v1/search'' \<longrightarrow>
              (\<exists>row \<in> set h. rq = search_request (artistName row @ '' '' @ trackName row) token)) \<and>
           (r = Inr () \<longrightarrow>
              (\<forall>row \<in> set h.
                 count_list new (search_request (artistName row @ '' '' @ trackName row) token) = 1) \<and>
              (\<exists>df. files s' ''data/streaming_history.csv'' = Some (History df) \<and>
                 length df = length h \<and>
                 (\<forall>i < length h.
                    row_artist_track (df ! i) = artistName (h ! i) @ '' '' @ trackName (h ! i) \<and>
                    fst (get_id w (row_artist_track (df ! i)) token s) = Inr (row_id (df ! i))) \<and>
                 (\<forall>a \<in> set df. \<forall>b \<in> set df.
                    row_artist_track a = row_artist_track b \<longrightarrow> row_id a = row_id b)))"
proof -
  let ?qs = "unique (map query_of h)"
  from main_any [OF assms] obtain n1 n2 n3 tids where
    dt: "distinct tids" and
    st: "sent s' = sent s @ take n1 (map (\<lambda>q. search_request q token) ?qs)
                       @ take n2 (map (\<lambda>t. track_request t token) tids)
                       @ take n3 (map (\<lambda>t. features_request t token) tids)"
    by blast
  define new where "new = take n1 (map (\<lambda>q. search_request q token) ?qs)
                       @ take n2 (map (\<lambda>t. track_request t token) tids)
                       @ take n3 (map (\<lambda>t. features_request t token) tids)"
  have s: "sent s' = sent s @ new" using st by (simp add: new_def)
  have dn: "distinct new"
    unfolding new_def by (rule distinct_schedule_parts [OF distinct_unique dt])
  have once: "\<forall>q. count_list new (search_request q token) \<le> 1"
    using dn by (simp add: count_list_distinct)
  have only: "\<forall>rq \<in> set new. url rq = ''https://api.spotify.com/v1/search'' \<longrightarrow>
              (\<exists>row \<in> set h. rq = search_request (artistName row @ '' '' @ trackName row) token)"
  proof (intro ballI impI)
    fix rq assume rq: "rq \<in> set new" and u: "url rq = ''https://api.spotify.com/v1/search''"
    from rq consider
      "rq \<in> set (take n1 (map (\<lambda>q. search_request q token) ?qs))" |
      "rq \<in> set (take n2 (map (\<lambda>t. track_request t token) tids))" |
      "rq \<in> set (take n3 (map (\<lambda>t. features_request t token) tids))"
      by (auto simp: new_def)
    then show "\<exists>row \<in> set h. rq = search_request (artistName row @ '' '' @ trackName row) token"
    proof cases
      case 1
      then have "rq \<in> set (map (\<lambda>q. search_request q token) ?qs)" by (rule in_set_takeD)
      then show ?thesis by (auto simp: set_unique query_of_def)
    next
      case 2
      then have "rq \<in> set (map (\<lambda>t. track_request t token) tids)" by (rule in_set_takeD)
      with u show ?thesis by (auto simp: track_request_def)
    next
      case 3
      then have "rq \<in> set (map (\<lambda>t. features_request t token) tids)" by (rule in_set_takeD)
      with u show ?thesis by (auto simp: features_request_def)
    qed
  qed
  have complete: "r = Inr () \<longrightarrow>
              (\<forall>row \<in> set h.
                 count_list new (search_request (artistName row @ '' '' @ trackName row) token) = 1) \<and>
              (\<exists>df. files s' ''data/streaming_history.csv'' = Some (History df) \<and>
                 length df = length h \<and>
                 (\<forall>i < length h.
                    row_artist_track (df ! i) = artistName (h ! i) @ '' '' @ trackName (h ! i) \<and>
                    fst (get_id w (row_artist_track (df ! i)) token s) = Inr (row_id (df ! i))) \<and>
                 (\<forall>a \<in> set df. \<forall>b \<in> set df.
                    row_artist_track a = row_artist_track b \<longrightarrow> row_id a = row_id b))"
  proof
    assume "r = Inr ()"
    with assms have run: "main w Timestamp h token s = (Inr (), s')" by simp
    from main_complete [OF run] obtain df tracks_data where
      an: "list_all2 (annotates w Timestamp token) h df" and
      full: "sent s' = sent s @ map (\<lambda>q. search_request q token) ?qs
                       @ map (\<lambda>t. track_request t token) (resolved_ids df)
                       @ map (\<lambda>t. features_request t token) (resolved_ids df)" and
      fl: "files s' = (files s)
             (''data/tracks.csv'' \<mapsto> Frame (DataFrame tracks_data),
              ''data/features.csv'' \<mapsto>
                 Frame \<lparr>columns = keep_features,
                        rows = map (\<lambda>i. map (\<lambda>c. converted (collected w token (resolved_ids df)) c ! i)
                                          keep_features)
                                 [0..<length (collected w token (resolved_ids df))]\<rparr>,
              ''data/streaming_history.csv'' \<mapsto> History df)"
      by blast
    from s full have new: "new = map (\<lambda>q. search_request q token) ?qs
                       @ map (\<lambda>t. track_request t token) (resolved_ids df)
                       @ map (\<lambda>t. features_request t token) (resolved_ids df)"
      by simp
    have 1: "\<forall>row \<in> set h.
                 count_list new (search_request (artistName row @ '' '' @ trackName row) token) = 1"
    proof
      fix row assume "row \<in> set h"
      then have "search_request (artistName row @ '' '' @ trackName row) token \<in> set new"
        by (auto simp: new set_unique query_of_def)
      with dn show "count_list new (search_request (artistName row @ '' '' @ trackName row) token) = 1"
        by (simp add: count_list_distinct)
    qed
    from fl have 2: "files s' ''data/streaming_history.csv'' = Some (History df)" by simp
    from an have 3: "length df = length h" by (simp add: list_all2_lengthD)
    have 4: "\<forall>i < length h.
                    row_artist_track (df ! i) = artistName (h ! i) @ '' '' @ trackName (h ! i) \<and>
                    fst (get_id w (row_artist_track (df ! i)) token s) = Inr (row_id (df ! i))"
    proof (intro allI impI)
      fix i assume "i < length h"
      with an have "annotates w Timestamp token (h ! i) (df ! i)"
        by (simp add: list_all2_conv_all_nth)
      then show "row_artist_track (df ! i) = artistName (h ! i) @ '' '' @ trackName (h ! i) \<and>
                    fst (get_id w (row_artist_track (df ! i)) token s) = Inr (row_id (df ! i))"
        unfolding annotates_def by blast
    qed
    have 5: "\<forall>a \<in> set df. \<forall>b \<in> set df.
                    row_artist_track a = row_artist_track b \<longrightarrow> row_id a = row_id b"
    proof (intro ballI impI)
      fix a b assume "a \<in> set df" "b \<in> set df" "row_artist_track a = row_artist_track b"
      with annotates_rows [OF an, of a s] annotates_rows [OF an, of b s]
      show "row_id a = row_id b" by simp
    qed
    from 1 2 3 4 5 show "(\<forall>row \<in> set h.
                 count_list new (search_request (artistName row @ '' '' @ trackName row) token) = 1) \<and>
              (\<exists>df. files s' ''data/streaming_history.csv'' = Some (History df) \<and>
                 length df = length h \<and>
                 (\<forall>i < length h.
                    row_artist_track (df ! i) = artistName (h ! i) @ '' '' @ trackName (h ! i) \<and>
                    fst (get_id w (row_artist_track (df ! i)) token s) = Inr (row_id (df ! i))) \<and>
                 (\<forall>a \<in> set df. \<forall>b \<in> set df.
                    row_artist_track a = row_artist_track b \<longrightarrow> row_id a = row_id b))"
      by blast
  qed
  from s once only complete show ?thesis by blast
qed

theorem resolver_once_per_query_witness:
  "\<exists>new. sent (snd (main (example_upstream unavailable available) example_Timestamp example_history
                        ''tok'' fresh)) = sent fresh @ new \<and>
      (\<forall>q. count_list new (search_request q ''tok'') \<le> 1) \<and>
      (\<forall>rq \<in> set new. url rq = ''https://api.spotify.com/v1/search'' \<longrightarrow>
         (\<exists>row \<in> set example_history.
            rq = search_request (artistName row @ '' '' @ trackName row) ''tok'')) \<and>
      (\<forall>row \<in> set example_history.
         count_list new (search_request (artistName row @ '' '' @ trackName row) ''tok'') = 1) \<and>
      (\<exists>df. files (snd (main (example_upstream unavailable available) example_Timestamp
                          example_history ''tok'' fresh)) ''data/streaming_history.csv''
               = Some (History df) \<and>
         length df = length example_history \<and>
         (\<forall>i < length example_history.
            row_artist_track (df ! i)
              = artistName (example_history ! i) @ '' '' @ trackName (example_history ! i) \<and>
            fst (get_id (example_upstream unavailable available) (row_artist_track (df ! i))
                   ''tok'' fresh) = Inr (row_id (df ! i))) \<and>
         (\<forall>a \<in> set df. \<forall>b \<in> set df.
            row_artist_track a = row_artist_track b \<longrightarrow> row_id a = row_id b))"
  using resolver_once_per_query [OF example_run_completes]
  by simp

lemma downstream_requests:
  "filter (\<lambda>rq. url rq \<noteq> ''https://api.spotify.com/v1/search'')
      (map (\<lambda>q. search_request q token) qs @ map (\<lambda>t. track_request t token) tids
         @ map (\<lambda>t. features_request t token) tids)
     = map (\<lambda>t. track_request t token) tids @ map (\<lambda>t. features_request t token) tids"
proof -
  have "filter (\<lambda>rq. url rq \<noteq> ''https://api.spotify.com/v1/search'')
          (map (\<lambda>q. search_request q token) qs) = []"
    by (induction qs) (simp_all add: search_request_def)
  moreover have "filter (\<lambda>rq. url rq \<noteq> ''https://api.spotify.com/v1/search'')
          (map (\<lambda>t. track_request t token) tids) = map (\<lambda>t. track_request t token) tids"
    by (induction tids) (simp_all add: track_request_def)
  moreover have "filter (\<lambda>rq. url rq \<noteq> ''https://api.spotify.com/v1/search'')
          (map (\<lambda>t. features_request t token) tids) = map (\<lambda>t. features_request t token) tids"
    by (induction tids) (simp_all add: features_request_def)
  ultimately show ?thesis by simp
qed

lemma schedule_members:
  "track_request tid token
      \<in> set (map (\<lambda>q. search_request q token) qs @ map (\<lambda>t. track_request t token) tids
               @ map (\<lambda>t. features_request t token) tids) \<longleftrightarrow> tid \<in> set tids"
  "features_request tid token
      \<in> set (map (\<lambda>q. search_request q token) qs @ map (\<lambda>t. track_request t token) tids
               @ map (\<lambda>t. features_request t token) tids) \<longleftrightarrow> tid \<in> set tids"
  using requests_differ [of _ token] requests_differ(3) [of _ token, symmetric]
    requests_differ(1,2) [of _ token, symmetric]
  by (auto simp: track_request_inj features_request_inj)

text \<open>
  C8. In every run no request is sent twice. In a run that completes: the metadata request
  of a track id is sent once when some row of the history has that id and never otherwise;
  the audio-feature request of a track id is sent once when the id is in the column \<^verbatim>\<open>id_\<close>
  of the metadata table and never otherwise; the ids of the feature table are those of the
  metadata table whose fetch did not return \<^verbatim>\<open>None\<close>; and the requests other than searches
  are twice as many as the distinct ids of the history that are not \<^verbatim>\<open>None\<close>, so a row without
  id causes no fetch.
\<close>

theorem fetches_once_per_track_id:
  assumes "main w Timestamp h token s = (r, s')"
  shows "\<exists>new. sent s' = sent s @ new \<and> distinct new \<and>
           (r = Inr () \<longrightarrow>
              (\<exists>df tracks features.
                 files s' ''data/streaming_history.csv'' = Some (History df) \<and>
                 files s' ''data/tracks.csv'' = Some (Frame tracks) \<and>
                 files s' ''data/features.csv'' = Some (Frame features) \<and>
                 (\<forall>tid. count_list new (track_request tid token)
                          = (if Some tid \<in> row_id ` set df then 1 else 0)) \<and>
                 (\<forall>tid. count_list new (features_request tid token)
                          = (if PStr tid \<in> set (column tracks ''id_'') then 1 else 0)) \<and>
                 column features ''id_''
                   = filter (\<lambda>v. \<exists>tid. v = PStr tid \<and>
                                  fst (get_track_audio_features w tid token s) \<noteq> Inr None)
                       (column tracks ''id_'') \<and>
                 length (filter (\<lambda>rq. url rq \<noteq> ''https://api.spotify.com/v1/search'') new)
                   = 2 * card {tid. Some tid \<in> row_id ` set df}))"
proof -
  from main_sent_distinct [OF assms] obtain new where
    s: "sent s' = sent s @ new" and dn: "distinct new"
    by blast
  have "r = Inr () \<longrightarrow>
              (\<exists>df tracks features.
                 files s' ''data/streaming_history.csv'' = Some (History df) \<and>
                 files s' ''data/tracks.csv'' = Some (Frame tracks) \<and>
                 files s' ''data/features.csv'' = Some (Frame features) \<and>
                 (\<forall>tid. count_list new (track_request tid token)
                          = (if Some tid \<in> row_id ` set df then 1 else 0)) \<and>
                 (\<forall>tid. count_list new (features_request tid token)
                          = (if PStr tid \<in> set (column tracks ''id_'') then 1 else 0)) \<and>
                 column features ''id_''
                   = filter (\<lambda>v. \<exists>tid. v = PStr tid \<and>
                                  fst (get_track_audio_features w tid token s) \<noteq> Inr None)
                       (column tracks ''id_'') \<and>
                 length (filter (\<lambda>rq. url rq \<noteq> ''https://api.spotify.com/v1/search'') new)
                   = 2 * card {tid. Some tid \<in> row_id ` set df})"
  proof
    assume "r = Inr ()"
    with assms have run: "main w Timestamp h token s = (Inr (), s')" by simp
    from main_complete [OF run] obtain df tracks_data where
      col: "column (DataFrame tracks_data) ''id_'' = map PStr (resolved_ids df)" and
      fetched: "\<forall>t \<in> set (resolved_ids df). \<exists>x. fst (get_track_audio_features w t token s) = Inr x" and
      full: "sent s' = sent s @ map (\<lambda>q. search_request q token) (unique (map query_of h))
                       @ map (\<lambda>t. track_request t token) (resolved_ids df)
                       @ map (\<lambda>t. features_request t token) (resolved_ids df)" and
      fl: "files s' = (files s)
             (''data/tracks.csv'' \<mapsto> Frame (DataFrame tracks_data),
              ''data/features.csv'' \<mapsto>
                 Frame \<lparr>columns = keep_features,
                        rows = map (\<lambda>i. map (\<lambda>c. converted (collected w token (resolved_ids df)) c ! i)
                                          keep_features)
                                 [0..<length (collected w token (resolved_ids df))]\<rparr>,
              ''data/streaming_history.csv'' \<mapsto> History df)"
      by blast
    let ?tids = "resolved_ids df"
    let ?features = "\<lparr>columns = keep_features,
                        rows = map (\<lambda>i. map (\<lambda>c. converted (collected w token (resolved_ids df)) c ! i)
                                          keep_features)
                                 [0..<length (collected w token (resolved_ids df))]\<rparr>"
    from s full have new: "new = map (\<lambda>q. search_request q token) (unique (map query_of h))
                       @ map (\<lambda>t. track_request t token) ?tids
                       @ map (\<lambda>t. features_request t token) ?tids"
      by simp
    from fl have 1: "files s' ''data/streaming_history.csv'' = Some (History df)"
      and 2: "files s' ''data/tracks.csv'' = Some (Frame (DataFrame tracks_data))"
      and 3: "files s' ''data/features.csv'' = Some (Frame ?features)"
      by simp_all
    have 4: "\<forall>tid. count_list new (track_request tid token)
                          = (if Some tid \<in> row_id ` set df then 1 else 0)"
    proof
      fix tid
      have "track_request tid token \<in> set new \<longleftrightarrow> tid \<in> set ?tids"
        unfolding new by (rule schedule_members(1))
      then show "count_list new (track_request tid token)
                   = (if Some tid \<in> row_id ` set df then 1 else 0)"
        by (simp add: count_list_distinct [OF dn] set_resolved_ids)
    qed
    have 5: "\<forall>tid. count_list new (features_request tid token)
               = (if PStr tid \<in> set (column (DataFrame tracks_data) ''id_'') then 1 else 0)"
    proof
      fix tid
      have "features_request tid token \<in> set new \<longleftrightarrow> tid \<in> set ?tids"
        unfolding new by (rule schedule_members(2))
      then show "count_list new (features_request tid token)
               = (if PStr tid \<in> set (column (DataFrame tracks_data) ''id_'') then 1 else 0)"
        by (auto simp: count_list_distinct [OF dn] col)
    qed
    have "column ?features ''id_'' = map PStr (filter (\<lambda>t. features_of w token t \<noteq> []) ?tids)"
      by (simp add: column_projected [OF id_in_keep_features] features_id_column)
    also have "filter (\<lambda>t. features_of w token t \<noteq> []) ?tids
                 = filter (\<lambda>t. fst (get_track_audio_features w t token s) \<noteq> Inr None) ?tids"
    proof (rule filter_cong [OF refl])
      fix t assume "t \<in> set ?tids"
      with fetched obtain x where x: "fst (get_track_audio_features w t token s) = Inr x" by blast
      show "(features_of w token t \<noteq> []) = (fst (get_track_audio_features w t token s) \<noteq> Inr None)"
        using x by (cases x) (simp_all add: features_of_absent [of w token t s])
    qed
    also have "map PStr (filter (\<lambda>t. fst (get_track_audio_features w t token s) \<noteq> Inr None) ?tids)
                 = filter (\<lambda>v. \<exists>tid. v = PStr tid \<and>
                                  fst (get_track_audio_features w tid token s) \<noteq> Inr None)
                       (map PStr ?tids)"
      by (simp add: filter_map o_def)
    finally have 6: "column ?features ''id_''
                   = filter (\<lambda>v. \<exists>tid. v = PStr tid \<and>
                                  fst (get_track_audio_features w tid token s) \<noteq> Inr None)
                       (column (DataFrame tracks_data) ''id_'')"
      by (simp add: col)
    have "card {tid. Some tid \<in> row_id ` set df} = length ?tids"
      using distinct_card [OF distinct_resolved_ids, of df] by (simp add: set_resolved_ids)
    moreover have "filter (\<lambda>rq. url rq \<noteq> ''https://api.spotify.com/v1/search'') new
        = map (\<lambda>t. track_request t token) ?tids @ map (\<lambda>t. features_request t token) ?tids"
      unfolding new by (rule downstream_requests)
    ultimately have 7: "length (filter (\<lambda>rq. url rq \<noteq> ''https://api.spotify.com/v1/search'') new)
                   = 2 * card {tid. Some tid \<in> row_id ` set df}"
      by simp
    from 1 2 3 4 5 6 7 show "\<exists>df tracks features.
                 files s' ''data/streaming_history.csv'' = Some (History df) \<and>
                 files s' ''data/tracks.csv'' = Some (Frame tracks) \<and>
                 files s' ''data/features.csv'' = Some (Frame features) \<and>
                 (\<forall>tid. count_list new (track_request tid token)
                          = (if Some tid \<in> row_id ` set df then 1 else 0)) \<and>
                 (\<forall>tid. count_list new (features_request tid token)
                          = (if PStr tid \<in> set (column tracks ''id_'') then 1 else 0)) \<and>
                 column features ''id_''
                   = filter (\<lambda>v. \<exists>tid. v = PStr tid \<and>
                                  fst (get_track_audio_features w tid token s) \<noteq> Inr None)
                       (column tracks ''id_'') \<and>
                 length (filter (\<lambda>rq. url rq \<noteq> ''https://api.spotify.com/v1/search'') new)
                   = 2 * card {tid. Some tid \<in> row_id ` set df}"
      by blast
  qed
  with s dn show ?thesis by blast
qed

theorem fetches_once_per_track_id_witness:
  "\<exists>new. sent (snd (main (example_upstream unavailable available) example_Timestamp example_history
                        ''tok'' fresh)) = sent fresh @ new \<and> distinct new \<and>
      (\<exists>df tracks features.
         files (snd (main (example_upstream unavailable available) example_Timestamp
                       example_history ''tok'' fresh)) ''data/streaming_history.csv''
           = Some (History df) \<and>
         files (snd (main (example_upstream unavailable available) example_Timestamp
                       example_history ''tok'' fresh)) ''data/tracks.csv'' = Some (Frame tracks) \<and>
         files (snd (main (example_upstream unavailable available) example_Timestamp
                       example_history ''tok'' fresh)) ''data/features.csv'' = Some (Frame features) \<and>
         (\<forall>tid. count_list new (track_request tid ''tok'')
                  = (if Some tid \<in> row_id ` set df then 1 else 0)) \<and>
         (\<forall>tid. count_list new (features_request tid ''tok'')
                  = (if PStr tid \<in> set (column tracks ''id_'') then 1 else 0)) \<and>
         column features ''id_''
           = filter (\<lambda>v. \<exists>tid. v = PStr tid \<and>
                          fst (get_track_audio_features (example_upstream unavailable available)
                                 tid ''tok'' fresh) \<noteq> Inr None)
               (column tracks ''id_'') \<and>
         length (filter (\<lambda>rq. url rq \<noteq> ''https://api.spotify.com/v1/search'') new)
           = 2 * card {tid. Some tid \<in> row_id ` set df})"
  using fetches_once_per_track_id [OF example_run_completes]
  by simp

lemma features_of_fetch:
  "features_of w token t =
     (case fst (get_track_audio_features w t token s) of
        Inr (Some data) \<Rightarrow> [AList.update ''id_'' (PStr t) data]
      | _ \<Rightarrow> [])"
proof (cases "w (features_request t token)")
  case (Inl e)
  then show ?thesis
    by (simp add: features_of_def get_track_audio_features_def requests_get_def)
next
  case (Inr r)
  then show ?thesis
    by (cases "payload r")
       (simp_all add: features_of_def get_track_audio_features_def requests_get_def
          raise_for_status_def)
qed

lemma converted_nth:
  "i < length ds \<Longrightarrow>
     converted ds c ! i = cell (ds ! i) c \<or> converted ds c ! i = to_float64 (cell (ds ! i) c)"
  by (simp add: converted_def convert_column_def)

text \<open>
  C9. In a run that completes, \<^verbatim>\<open>features.csv\<close> holds the table of the feature objects
  collected by the loop of lines 162 to 170: for each id of the column \<^verbatim>\<open>id_\<close> of
  \<^verbatim>\<open>tracks.csv\<close> in turn, what \<^verbatim>\<open>get_track_audio_features\<close> returns for it, with the id stored
  under \<^verbatim>\<open>id_\<close>, unless it returns \<^verbatim>\<open>None\<close>. The columns of the table are \<^verbatim>\<open>id_\<close>, \<^verbatim>\<open>danceability\<close>,
  \<^verbatim>\<open>energy\<close>, \<^verbatim>\<open>key\<close>, \<^verbatim>\<open>loudness\<close>, \<^verbatim>\<open>mode\<close>, \<^verbatim>\<open>speechiness\<close>, \<^verbatim>\<open>acousticness\<close>, \<^verbatim>\<open>instrumentalness\<close>,
  \<^verbatim>\<open>liveness\<close>, \<^verbatim>\<open>valence\<close>, \<^verbatim>\<open>tempo\<close>, \<^verbatim>\<open>time_signature\<close>, thirteen columns in this order; row \<open>i\<close>
  holds, column by column, the entries of object \<open>i\<close> as the frame stores them, that is the
  entry of the object itself or that entry as a float; the column \<^verbatim>\<open>id_\<close> holds the ids of
  the objects unchanged.
\<close>

theorem features_csv_projection:
  assumes "main w Timestamp h token s = (Inr (), s')"
  shows "\<exists>tracks ids objects.
           files s' ''data/tracks.csv'' = Some (Frame tracks) \<and>
           column tracks ''id_'' = map PStr ids \<and>
           objects =
             concat (map (\<lambda>t. case fst (get_track_audio_features w t token s) of
                                 Inr (Some data) \<Rightarrow> [AList.update ''id_'' (PStr t) data]
                               | _ \<Rightarrow> []) ids) \<and>
           files s' ''data/features.csv'' =
             Some (Frame
               \<lparr>columns =
                  [''id_'', ''danceability'', ''energy'', ''key'', ''loudness'', ''mode'',
                   ''speechiness'', ''acousticness'', ''instrumentalness'', ''liveness'',
                   ''valence'', ''tempo'', ''time_signature''],
                rows =
                  map (\<lambda>i. map (\<lambda>c. converted objects c ! i)
                     [''id_'', ''danceability'', ''energy'', ''key'', ''loudness'', ''mode'',
                      ''speechiness'', ''acousticness'', ''instrumentalness'', ''liveness'',
                      ''valence'', ''tempo'', ''time_signature''])
                    [0..<length objects]\<rparr>) \<and>
           converted objects ''id_'' = map (\<lambda>d. cell d ''id_'') objects \<and>
           (\<forall>i < length objects. \<forall>c.
              converted objects c ! i = cell (objects ! i) c \<or>
              converted objects c ! i = to_float64 (cell (objects ! i) c))"
proof -
  from main_complete [OF assms] obtain df tracks_data where
    col: "column (DataFrame tracks_data) ''id_'' = map PStr (resolved_ids df)" and
    fl: "files s' = (files s)
             (''data/tracks.csv'' \<mapsto> Frame (DataFrame tracks_data),
              ''data/features.csv'' \<mapsto>
                 Frame \<lparr>columns = keep_features,
                        rows = map (\<lambda>i. map (\<lambda>c. converted (collected w token (resolved_ids df)) c ! i)
                                          keep_features)
                                 [0..<length (collected w token (resolved_ids df))]\<rparr>,
              ''data/streaming_history.csv'' \<mapsto> History df)"
    by blast
  let ?ids = "resolved_ids df"
  let ?objects = "collected w token ?ids"
  have "(\<lambda>t. case fst (get_track_audio_features w t token s) of
                 Inr (Some data) \<Rightarrow> [AList.update ''id_'' (PStr t) data]
               | _ \<Rightarrow> []) = features_of w token"
    by (rule ext) (rule features_of_fetch [symmetric])
  then have 1: "?objects =
             concat (map (\<lambda>t. case fst (get_track_audio_features w t token s) of
                                 Inr (Some data) \<Rightarrow> [AList.update ''id_'' (PStr t) data]
                               | _ \<Rightarrow> []) ?ids)"
    by (simp add: collected_def)
  from fl have 2: "files s' ''data/tracks.csv'' = Some (Frame (DataFrame tracks_data))" by simp
  from fl have 3: "files s' ''data/features.csv'' =
             Some (Frame
               \<lparr>columns =
                  [''id_'', ''danceability'', ''energy'', ''key'', ''loudness'', ''mode'',
                   ''speechiness'', ''acousticness'', ''instrumentalness'', ''liveness'',
                   ''valence'', ''tempo'', ''time_signature''],
                rows =
                  map (\<lambda>i. map (\<lambda>c. converted ?objects c ! i)
                     [''id_'', ''danceability'', ''energy'', ''key'', ''loudness'', ''mode'',
                      ''speechiness'', ''acousticness'', ''instrumentalness'', ''liveness'',
                      ''valence'', ''tempo'', ''time_signature''])
                    [0..<length ?objects]\<rparr>)"
    by (simp add: keep_features_def)
  have 4: "converted ?objects ''id_'' = map (\<lambda>d. cell d ''id_'') ?objects"
    by (simp add: features_id_column collected_ids)
  have 5: "\<forall>i < length ?objects. \<forall>c.
              converted ?objects c ! i = cell (?objects ! i) c \<or>
              converted ?objects c ! i = to_float64 (cell (?objects ! i) c)"
    using converted_nth by blast
  from col 1 2 3 4 5 show ?thesis by blast
qed

theorem features_csv_projection_witness:
  "main (example_upstream (Inr \<lparr>status_code = 200, payload = AudioFeatures other_features\<rparr>) available)
      example_Timestamp example_history ''tok'' fresh
     = (Inr (),
        snd (main (example_upstream (Inr \<lparr>status_code = 200, payload = AudioFeatures other_features\<rparr>)
                     available) example_Timestamp example_history ''tok'' fresh)) \<and>
   (\<exists>tracks ids objects.
      files (snd (main (example_upstream (Inr \<lparr>status_code = 200, payload = AudioFeatures other_features\<rparr>)
                          available) example_Timestamp example_history ''tok'' fresh))
        ''data/tracks.csv'' = Some (Frame tracks) \<and>
      column tracks ''id_'' = map PStr ids \<and>
      objects =
        concat (map (\<lambda>t. case fst (get_track_audio_features
                                     (example_upstream
                                        (Inr \<lparr>status_code = 200, payload = AudioFeatures other_features\<rparr>)
                                        available) t ''tok'' fresh) of
                            Inr (Some data) \<Rightarrow> [AList.update ''id_'' (PStr t) data]
                          | _ \<Rightarrow> []) ids) \<and>
      files (snd (main (example_upstream (Inr \<lparr>status_code = 200, payload = AudioFeatures other_features\<rparr>)
                          available) example_Timestamp example_history ''tok'' fresh))
        ''data/features.csv'' =
        Some (Frame
          \<lparr>columns =
             [''id_'', ''danceability'', ''energy'', ''key'', ''loudness'', ''mode'',
              ''speechiness'', ''acousticness'', ''instrumentalness'', ''liveness'',
              ''valence'', ''tempo'', ''time_signature''],
           rows =
             map (\<lambda>i. map (\<lambda>c. converted objects c ! i)
                [''id_'', ''danceability'', ''energy'', ''key'', ''loudness'', ''mode'',
                 ''speechiness'', ''acousticness'', ''instrumentalness'', ''liveness'',
                 ''valence'', ''tempo'', ''time_signature''])
               [0..<length objects]\<rparr>) \<and>
      converted objects ''id_'' = map (\<lambda>d. cell d ''id_'') objects \<and>
      (\<forall>i < length objects. \<forall>c.
         converted objects c ! i = cell (objects ! i) c \<or>
         converted objects c ! i = to_float64 (cell (objects ! i) c))) \<and>
   files (snd (main (example_upstream (Inr \<lparr>status_code = 200, payload = AudioFeatures other_features\<rparr>)
                       available) example_Timestamp example_history ''tok'' fresh))
     ''data/features.csv'' =
     Some (Frame
       \<lparr>columns =
          [''id_'', ''danceability'', ''energy'', ''key'', ''loudness'', ''mode'',
           ''speechiness'', ''acousticness'', ''instrumentalness'', ''liveness'',
           ''valence'', ''tempo'', ''time_signature''],
        rows =
          [[PStr ''abc123'', PFloat (7 / 10), PFloat 1, PInt 0, PFloat (- 5), PInt 0,
            PFloat (1 / 25), PFloat 0, PFloat 0, PFloat (1 / 10), NaN, PFloat 98, PInt 3],
           [PStr ''def456'', PFloat (1 / 2), PFloat (3 / 4), PInt 5, PFloat (- 6), PInt 1,
            PFloat (1 / 20), PFloat (1 / 10), PFloat 0, PFloat (1 / 5), PFloat (2 / 5),
            PFloat 120, PInt 4]]\<rparr>)"
proof -
  let ?w = "example_upstream (Inr \<lparr>status_code = 200, payload = AudioFeatures other_features\<rparr>)
              available"
  have "fst (main ?w example_Timestamp example_history ''tok'' fresh) = Inr ()"
    by code_simp
  then have run: "main ?w example_Timestamp example_history ''tok'' fresh
                    = (Inr (), snd (main ?w example_Timestamp example_history ''tok'' fresh))"
    by (simp add: prod_eq_iff)
  have table: "files (snd (main ?w example_Timestamp example_history ''tok'' fresh))
     ''data/features.csv'' =
     Some (Frame
       \<lparr>columns =
          [''id_'', ''danceability'', ''energy'', ''key'', ''loudness'', ''mode'',
           ''speechiness'', ''acousticness'', ''instrumentalness'', ''liveness'',
           ''valence'', ''tempo'', ''time_signature''],
        rows =
          [[PStr ''abc123'', PFloat (7 / 10), PFloat 1, PInt 0, PFloat (- 5), PInt 0,
            PFloat (1 / 25), PFloat 0, PFloat 0, PFloat (1 / 10), NaN, PFloat 98, PInt 3],
           [PStr ''def456'', PFloat (1 / 2), PFloat (3 / 4), PInt 5, PFloat (- 6), PInt 1,
            PFloat (1 / 20), PFloat (1 / 10), PFloat 0, PFloat (1 / 5), PFloat (2 / 5),
            PFloat 120, PInt 4]]\<rparr>)"
    by code_simp
  from run features_csv_projection [OF run] table show ?thesis by (intro conjI)
qed

lemma tracks_features_data_of_all_absent:
  "\<forall>t \<in> set tids. fst (get_track_audio_features w t token s0) = Inr None \<Longrightarrow>
     tracks_features_data_of w (map PStr tids) token s
       = (Inr [], s\<lparr>sent := sent s @ map (\<lambda>t. features_request t token) tids\<rparr>)"
proof (induction tids arbitrary: s)
  case Nil
  then show ?case by simp
next
  case (Cons t tids)
  obtain r1 s1 where g: "get_track_audio_features w t token s = (r1, s1)"
    by (cases "get_track_audio_features w t token s")
  from get_track_audio_features_result [OF g, of s0] Cons.prems have "r1 = Inr None" by simp
  with g get_track_audio_features_state [OF g] Cons show ?case by simp
qed

lemma getitem_empty: "getitem (DataFrame []) keep_features = Inl (KeyError ''id_'')"
  by (simp add: getitem_def DataFrame_def unique_def keep_features_def)

lemma resolved_ids_resolve:
  assumes "list_all2 (annotates w Timestamp token) h df" and "tid \<in> set (resolved_ids df)"
  shows "\<exists>row \<in> set h. fst (get_id w (artistName row @ '' '' @ trackName row) token s) = Inr (Some tid)"
proof -
  from assms(2) obtain n where n: "n < length df" "row_id (df ! n) = Some tid"
    by (auto simp: set_resolved_ids in_set_conv_nth)
  with assms(1) have a: "annotates w Timestamp token (h ! n) (df ! n)" and l: "n < length h"
    by (auto simp: list_all2_conv_all_nth)
  from a have q: "row_artist_track (df ! n) = artistName (h ! n) @ '' '' @ trackName (h ! n)"
    and g: "\<forall>s0. fst (get_id w (row_artist_track (df ! n)) token s0) = Inr (row_id (df ! n))"
    unfolding annotates_def by blast+
  from g have "fst (get_id w (row_artist_track (df ! n)) token s) = Inr (row_id (df ! n))" by blast
  with q n have "fst (get_id w (artistName (h ! n) @ '' '' @ trackName (h ! n)) token s) = Inr (Some tid)"
    by simp
  with l show ?thesis by (metis nth_mem)
qed

lemma main_stages:
  assumes "main w Timestamp h token s = (r, s')"
  shows "(\<exists>e. annotated_history w Timestamp h token s = (Inl e, s') \<and> r = Inl e \<and>
              files s' = files s) \<or>
         (\<exists>df s1 e. annotated_history w Timestamp h token s = (Inr df, s1) \<and>
              tracks_data_of w (unique (map row_id df)) token s1 = (Inl e, s') \<and> r = Inl e \<and>
              files s' = files s) \<or>
         (\<exists>df s1 tracks_data s2.
            annotated_history w Timestamp h token s = (Inr df, s1) \<and>
            tracks_data_of w (unique (map row_id df)) token s1 = (Inr tracks_data, s2) \<and>
            files s2 = files s \<and>
            ((r = Inl (AttributeError ''id_'') \<and> resolved_ids df = [] \<and>
              s' = to_csv (Frame (DataFrame tracks_data)) ''data/tracks.csv'' s2) \<or>
             (\<exists>rf s4. column (DataFrame tracks_data) ''id_'' = map PStr (resolved_ids df) \<and>
                tracks_features_data_of w (map PStr (resolved_ids df)) token
                    (to_csv (Frame (DataFrame tracks_data)) ''data/tracks.csv'' s2) = (rf, s4) \<and>
                files s4 = (files s)(''data/tracks.csv'' \<mapsto> Frame (DataFrame tracks_data)) \<and>
                (case rf of
                   Inl e \<Rightarrow> r = Inl e \<and> s' = s4
                 | Inr tracks_features_data \<Rightarrow>
                     (case getitem (DataFrame tracks_features_data) keep_features of
                        Inl e \<Rightarrow> r = Inl e \<and> s' = s4
                      | Inr features_df \<Rightarrow> r = Inr ())))))"
proof -
  obtain ra s1 where a: "annotated_history w Timestamp h token s = (ra, s1)"
    by (cases "annotated_history w Timestamp h token s")
  note A = annotated_history_any [OF a]
  show ?thesis
  proof (cases ra)
    case (Inl e)
    with assms a A show ?thesis by (auto simp: main_def)
  next
    case (Inr df)
    obtain rt s2 where t: "tracks_data_of w (unique (map row_id df)) token s1 = (rt, s2)"
      by (cases "tracks_data_of w (unique (map row_id df)) token s1")
    from tracks_data_of_any [OF t] A have f2: "files s2 = files s" by auto
    show ?thesis
    proof (cases rt)
      case (Inl e)
      with assms a t f2 \<open>ra = Inr df\<close> show ?thesis by (auto simp: main_def)
    next
      case (Inr tracks_data)
      note T = tracks_data_of_ok [OF t [unfolded Inr]]
      let ?s3 = "to_csv (Frame (DataFrame tracks_data)) ''data/tracks.csv'' s2"
      show ?thesis
      proof (cases "getattr (DataFrame tracks_data) ''id_''")
        case (Inl e)
        then have nc: "''id_'' \<notin> set (columns (DataFrame tracks_data))" and e: "e = AttributeError ''id_''"
          by (auto simp: getattr_def split: if_splits)
        from nc T have "tracks_data = []" by (cases tracks_data) (auto simp: columns_DataFrame)
        with T have "resolved_ids df = []" by (simp add: resolved_ids_def)
        moreover from assms a t Inl e \<open>ra = Inr df\<close> \<open>rt = Inr tracks_data\<close>
        have "r = Inl (AttributeError ''id_'')" "s' = ?s3"
          by (simp_all add: main_def Let_def)
        ultimately show ?thesis using a t f2 \<open>ra = Inr df\<close> \<open>rt = Inr tracks_data\<close> by blast
      next
        case (Inr id_column)
        note I = id_column_tracks [OF t [unfolded \<open>rt = Inr tracks_data\<close>] Inr]
        have u: "unique id_column = map PStr (resolved_ids df)"
          using I(1) by (simp add: unique_map_PStr distinct_resolved_ids)
        obtain rf s4 where f: "tracks_features_data_of w (map PStr (resolved_ids df)) token ?s3 = (rf, s4)"
          by (cases "tracks_features_data_of w (map PStr (resolved_ids df)) token ?s3")
        from tracks_features_data_of_any [OF f] f2
        have f4: "files s4 = (files s)(''data/tracks.csv'' \<mapsto> Frame (DataFrame tracks_data))"
          by (auto simp: to_csv_def)
        have c: "column (DataFrame tracks_data) ''id_'' = map PStr (resolved_ids df)"
          using I by simp
        have "case rf of
                   Inl e \<Rightarrow> r = Inl e \<and> s' = s4
                 | Inr tracks_features_data \<Rightarrow>
                     (case getitem (DataFrame tracks_features_data) keep_features of
                        Inl e \<Rightarrow> r = Inl e \<and> s' = s4
                      | Inr features_df \<Rightarrow> r = Inr ())"
          using assms a t f u Inr \<open>ra = Inr df\<close> \<open>rt = Inr tracks_data\<close>
          by (auto simp: main_def Let_def split: sum.splits)
        with c f f4 a t f2 \<open>ra = Inr df\<close> \<open>rt = Inr tracks_data\<close> show ?thesis by blast
      qed
    qed
  qed
qed

text \<open>
  C10. Selecting the thirteen columns from the frame of an empty list raises \<^verbatim>\<open>KeyError\<close>.
  In a run in which the audio features of every track id that a record of the history
  resolves to are absent (also when no record resolves to an id), the run ends with an
  exception and neither \<^verbatim>\<open>features.csv\<close> nor \<^verbatim>\<open>streaming_history.csv\<close> is written: either an
  earlier stage failed and no file is written at all, or \<^verbatim>\<open>tracks.csv\<close> alone is written and
  the exception is the \<^verbatim>\<open>KeyError\<close> of the selection or, when the metadata table is empty, the
  \<^verbatim>\<open>AttributeError\<close> of \<^verbatim>\<open>tracks_df.id_\<close>.
\<close>

theorem no_feature_rows_no_output:
  assumes "main w Timestamp h token s = (r, s')"
    and "\<forall>row \<in> set h.
           case fst (get_id w (artistName row @ '' '' @ trackName row) token s) of
             Inr (Some tid) \<Rightarrow> fst (get_track_audio_features w tid token s) = Inr None
           | _ \<Rightarrow> True"
  shows "getitem (DataFrame []) keep_features = Inl (KeyError ''id_'') \<and>
         (\<exists>e. r = Inl e) \<and>
         files s' ''data/features.csv'' = files s ''data/features.csv'' \<and>
         files s' ''data/streaming_history.csv'' = files s ''data/streaming_history.csv'' \<and>
         (files s' = files s \<or>
          (\<exists>tracks. files s' = (files s)(''data/tracks.csv'' \<mapsto> Frame tracks) \<and>
             (r = Inl (KeyError ''id_'') \<or> r = Inl (AttributeError ''id_''))))"
proof -
  from main_stages [OF assms(1)] consider
    (early) e where "r = Inl e" "files s' = files s" |
    (noids) tracks_data s2 where "r = Inl (AttributeError ''id_'')" "files s2 = files s"
      "s' = to_csv (Frame (DataFrame tracks_data)) ''data/tracks.csv'' s2" |
    (feats) df s1 tracks_data s2 rf s4 where
      "annotated_history w Timestamp h token s = (Inr df, s1)"
      "tracks_features_data_of w (map PStr (resolved_ids df)) token
          (to_csv (Frame (DataFrame tracks_data)) ''data/tracks.csv'' s2) = (rf, s4)"
      "files s4 = (files s)(''data/tracks.csv'' \<mapsto> Frame (DataFrame tracks_data))"
      "case rf of
         Inl e \<Rightarrow> r = Inl e \<and> s' = s4
       | Inr tracks_features_data \<Rightarrow>
           (case getitem (DataFrame tracks_features_data) keep_features of
              Inl e \<Rightarrow> r = Inl e \<and> s' = s4
            | Inr features_df \<Rightarrow> r = Inr ())"
    by blast
  then have "(\<exists>e. r = Inl e) \<and>
         files s' ''data/features.csv'' = files s ''data/features.csv'' \<and>
         files s' ''data/streaming_history.csv'' = files s ''data/streaming_history.csv'' \<and>
         (files s' = files s \<or>
          (\<exists>tracks. files s' = (files s)(''data/tracks.csv'' \<mapsto> Frame tracks) \<and>
             (r = Inl (KeyError ''id_'') \<or> r = Inl (AttributeError ''id_''))))"
  proof cases
    case early
    then show ?thesis by simp
  next
    case noids
    then have "files s' = (files s)(''data/tracks.csv'' \<mapsto> Frame (DataFrame tracks_data))"
      by (simp add: to_csv_def)
    with noids(1) show ?thesis by auto
  next
    case feats
    from annotated_history_ok [OF feats(1)]
    have an: "list_all2 (annotates w Timestamp token) h df" by simp
    have "\<forall>t \<in> set (resolved_ids df). fst (get_track_audio_features w t token s) = Inr None"
    proof
      fix t assume "t \<in> set (resolved_ids df)"
      from resolved_ids_resolve [OF an this, of s] obtain row where
        "row \<in> set h"
        "fst (get_id w (artistName row @ '' '' @ trackName row) token s) = Inr (Some t)"
        by blast
      with assms(2) show "fst (get_track_audio_features w t token s) = Inr None"
        by fastforce
    qed
    from tracks_features_data_of_all_absent [OF this] feats(2) have "rf = Inr []" by simp
    with feats(4) have "r = Inl (KeyError ''id_'')" "s' = s4" by (simp_all add: getitem_empty)
    with feats(3) show ?thesis by auto
  qed
  with getitem_empty show ?thesis by blast
qed

theorem no_feature_rows_no_output_witness:
  "(\<exists>e. fst (main (example_upstream unavailable unavailable) example_Timestamp example_history
                ''tok'' fresh) = Inl e) \<and>
   files (snd (main (example_upstream unavailable unavailable) example_Timestamp example_history
                 ''tok'' fresh)) ''data/features.csv'' = files fresh ''data/features.csv'' \<and>
   files (snd (main (example_upstream unavailable unavailable) example_Timestamp example_history
                 ''tok'' fresh)) ''data/streaming_history.csv''
     = files fresh ''data/streaming_history.csv'' \<and>
   (\<exists>e. fst (main (example_upstream available available) example_Timestamp unmatched_history
                ''tok'' fresh) = Inl e) \<and>
   files (snd (main (example_upstream available available) example_Timestamp unmatched_history
                 ''tok'' fresh)) ''data/features.csv'' = files fresh ''data/features.csv'' \<and>
   files (snd (main (example_upstream available available) example_Timestamp unmatched_history
                 ''tok'' fresh)) ''data/streaming_history.csv''
     = files fresh ''data/streaming_history.csv''"
proof -
  have 1: "\<forall>row \<in> set example_history.
      case fst (get_id (example_upstream unavailable unavailable)
                  (artistName row @ '' '' @ trackName row) ''tok'' fresh) of
        Inr (Some tid) \<Rightarrow>
          fst (get_track_audio_features (example_upstream unavailable unavailable) tid ''tok'' fresh)
            = Inr None
      | _ \<Rightarrow> True"
    by code_simp
  have 2: "\<forall>row \<in> set unmatched_history.
      case fst (get_id (example_upstream available available)
                  (artistName row @ '' '' @ trackName row) ''tok'' fresh) of
        Inr (Some tid) \<Rightarrow>
          fst (get_track_audio_features (example_upstream available available) tid ''tok'' fresh)
            = Inr None
      | _ \<Rightarrow> True"
    by code_simp
  from 1 2
    no_feature_rows_no_output
      [where w = "example_upstream unavailable unavailable" and Timestamp = example_Timestamp
         and h = example_history and token = "''tok''" and s = fresh
         and r = "fst (main (example_upstream unavailable unavailable) example_Timestamp
                         example_history ''tok'' fresh)"
         and s' = "snd (main (example_upstream unavailable unavailable) example_Timestamp
                          example_history ''tok'' fresh)"]
    no_feature_rows_no_output
      [where w = "example_upstream available available" and Timestamp = example_Timestamp
         and h = unmatched_history and token = "''tok''" and s = fresh
         and r = "fst (main (example_upstream available available) example_Timestamp
                         unmatched_history ''tok'' fresh)"
         and s' = "snd (main (example_upstream available available) example_Timestamp
                          unmatched_history ''tok'' fresh)"]
  show ?thesis by simp
qed

text \<open>
  C2, as stated, fails: on the mock upstream whose audio-feature endpoint answers 500 for
  \<^verbatim>\<open>abc123\<close> the run ends with that \<^verbatim>\<open>HTTPError\<close> and \<^verbatim>\<open>tracks.csv\<close> exists.
\<close>

theorem fatal_feature_fetch_leaves_tracks_csv:
  "files fresh ''data/tracks.csv'' = None \<and>
   fst (main (example_upstream (Inr \<lparr>status_code = 500, payload = Unparsable\<rparr>) available)
          example_Timestamp example_history ''tok'' fresh) = Inl (HTTPError 500) \<and>
   files (snd (main (example_upstream (Inr \<lparr>status_code = 500, payload = Unparsable\<rparr>) available)
                 example_Timestamp example_history ''tok'' fresh)) ''data/tracks.csv'' \<noteq> None"
proof -
  have "files fresh ''data/tracks.csv'' = None" by (simp add: fresh_def)
  moreover have
    "fst (main (example_upstream (Inr \<lparr>status_code = 500, payload = Unparsable\<rparr>) available)
          example_Timestamp example_history ''tok'' fresh) = Inl (HTTPError 500)"
    by code_simp
  moreover have
    "files (snd (main (example_upstream (Inr \<lparr>status_code = 500, payload = Unparsable\<rparr>) available)
                 example_Timestamp example_history ''tok'' fresh)) ''data/tracks.csv'' \<noteq> None"
    by code_simp
  ultimately show ?thesis by blast
qed

text \<open>
  C2, amended. A run that ends with an exception writes neither \<^verbatim>\<open>features.csv\<close> nor
  \<^verbatim>\<open>streaming_history.csv\<close>. When the exception comes from the lines up to 149 (reading the
  history, resolving the ids) or from the metadata loop, no file is written at all; when
  these stages have returned, \<^verbatim>\<open>tracks.csv\<close> holds the complete metadata table and is the only
  file written.
\<close>

theorem fatal_error_persistence:
  assumes "main w Timestamp h token s = (Inl e, s')"
  shows "files s' ''data/features.csv'' = files s ''data/features.csv'' \<and>
         files s' ''data/streaming_history.csv'' = files s ''data/streaming_history.csv'' \<and>
         (case annotated_history w Timestamp h token s of
            (Inl _, _) \<Rightarrow> files s' = files s
          | (Inr df, s1) \<Rightarrow>
              (case tracks_data_of w (unique (map row_id df)) token s1 of
                 (Inl _, _) \<Rightarrow> files s' = files s
               | (Inr tracks_data, _) \<Rightarrow>
                   files s' = (files s)(''data/tracks.csv'' \<mapsto> Frame (DataFrame tracks_data))))"
proof -
  from main_stages [OF assms] consider
    (resolve) e1 where "annotated_history w Timestamp h token s = (Inl e1, s')" "files s' = files s" |
    (metadata) df s1 e1 where "annotated_history w Timestamp h token s = (Inr df, s1)"
      "tracks_data_of w (unique (map row_id df)) token s1 = (Inl e1, s')" "files s' = files s" |
    (noids) df s1 tracks_data s2 where "annotated_history w Timestamp h token s = (Inr df, s1)"
      "tracks_data_of w (unique (map row_id df)) token s1 = (Inr tracks_data, s2)"
      "files s2 = files s"
      "s' = to_csv (Frame (DataFrame tracks_data)) ''data/tracks.csv'' s2" |
    (feats) df s1 tracks_data s2 rf s4 where
      "annotated_history w Timestamp h token s = (Inr df, s1)"
      "tracks_data_of w (unique (map row_id df)) token s1 = (Inr tracks_data, s2)"
      "files s4 = (files s)(''data/tracks.csv'' \<mapsto> Frame (DataFrame tracks_data))"
      "case rf of
         Inl e' \<Rightarrow> Inl e = (Inl e' :: exn + unit) \<and> s' = s4
       | Inr tracks_features_data \<Rightarrow>
           (case getitem (DataFrame tracks_features_data) keep_features of
              Inl e' \<Rightarrow> Inl e = (Inl e' :: exn + unit) \<and> s' = s4
            | Inr features_df \<Rightarrow> (Inl e :: exn + unit) = Inr ())"
    by blast
  then show ?thesis
  proof cases
    case resolve
    then show ?thesis by simp
  next
    case metadata
    then show ?thesis by simp
  next
    case noids
    then show ?thesis by (simp add: to_csv_def)
  next
    case feats
    from feats(4) have "s' = s4" by (auto split: sum.splits)
    with feats(1,2,3) show ?thesis by simp
  qed
qed

theorem fatal_error_persistence_witness:
  "main (example_upstream (Inr \<lparr>status_code = 500, payload = Unparsable\<rparr>) available)
      example_Timestamp example_history ''tok'' fresh
     = (Inl (HTTPError 500),
        snd (main (example_upstream (Inr \<lparr>status_code = 500, payload = Unparsable\<rparr>) available)
               example_Timestamp example_history ''tok'' fresh)) \<and>
   files (snd (main (example_upstream (Inr \<lparr>status_code = 500, payload = Unparsable\<rparr>) available)
                 example_Timestamp example_history ''tok'' fresh)) ''data/features.csv''
     = files fresh ''data/features.csv'' \<and>
   files (snd (main (example_upstream (Inr \<lparr>status_code = 500, payload = Unparsable\<rparr>) available)
                 example_Timestamp example_history ''tok'' fresh)) ''data/streaming_history.csv''
     = files fresh ''data/streaming_history.csv'' \<and>
   main (\<lambda>rq. Inl ConnectionError) example_Timestamp example_history ''tok'' fresh
     = (Inl ConnectionError,
        snd (main (\<lambda>rq. Inl ConnectionError) example_Timestamp example_history ''tok'' fresh)) \<and>
   files (snd (main (\<lambda>rq. Inl ConnectionError) example_Timestamp example_history ''tok'' fresh))
     = files fresh"
proof -
  let ?w = "example_upstream (Inr \<lparr>status_code = 500, payload = Unparsable\<rparr>) available"
  have "fst (main ?w example_Timestamp example_history ''tok'' fresh) = Inl (HTTPError 500)"
    by code_simp
  then have 1: "main ?w example_Timestamp example_history ''tok'' fresh
     = (Inl (HTTPError 500), snd (main ?w example_Timestamp example_history ''tok'' fresh))"
    by (simp add: prod_eq_iff)
  have "fst (main (\<lambda>rq. Inl ConnectionError) example_Timestamp example_history ''tok'' fresh)
          = Inl ConnectionError"
    by code_simp
  then have 2: "main (\<lambda>rq. Inl ConnectionError) example_Timestamp example_history ''tok'' fresh
     = (Inl ConnectionError,
        snd (main (\<lambda>rq. Inl ConnectionError) example_Timestamp example_history ''tok'' fresh))"
    by (simp add: prod_eq_iff)
  have 3: "fst (annotated_history (\<lambda>rq. Inl ConnectionError) example_Timestamp example_history
                  ''tok'' fresh) = Inl ConnectionError"
    by code_simp
  from fatal_error_persistence [OF 1] fatal_error_persistence [OF 2] 1 2 3
  show ?thesis by (auto split: prod.splits sum.splits)
qed

end
